theory Spec2Isabelle
  imports Complex_Main
begin

section \<open>Invoice approval agent: data model\<close>

text \<open>
  The development follows \<^verbatim>\<open>discord1.py\<close> (class \<^verbatim>\<open>InvoiceApprovalAgent\<close>) and
  \<^verbatim>\<open>src/eth/etherscan_client.py\<close>.

  Python values that occur in the invoice payload are strings or \<^verbatim>\<open>None\<close>. A dictionary
  is a map; a key that is absent is \<open>None\<close> of the map, a key bound to \<^verbatim>\<open>None\<close> is
  \<open>Some PyNone\<close>. Strings are lists of characters with codes below 256.
\<close>

datatype pyval = PyNone | PyStr string

fun truthy :: "pyval \<Rightarrow> bool" where
  "truthy PyNone = False"
| "truthy (PyStr s) = (s \<noteq> [])"

text \<open>
  \<^verbatim>\<open>InvoiceState\<close> (a TypedDict). Every \<^verbatim>\<open>Optional\<close> key is an option. Instants are
  microseconds (the resolution of \<^verbatim>\<open>datetime\<close>), amounts of ether are rationals.
\<close>

record invoice_state =
  invoice_data :: "string \<rightharpoonup> pyval"
  discord_thread_id :: "string option"
  discord_message_id :: "string option"
  approval_status :: string
  cost_center :: "string option"
  approver :: "string option"
  rejection_reason :: "string option"
  payment_status :: string
  transaction_id :: "string option"
  paid_amount_eth :: "rat option"
  reminder_count :: int
  last_reminder :: "string option"
  spreadsheet_row :: "int option"
  sla_message_id :: "string option"
  approval_sla_hours :: "int option"

text \<open>Exceptions of the Python code, as values.\<close>

datatype error =
    ValueError_missing "string list"
  | ValueError_isoformat string
  | TypeError
  | KeyError string
  | NameError string
  | OperationalError string
  | DatabaseError string
  | RequestError string
  | RuntimeError string
  | AttributeError

section \<open>Validation of an incoming invoice\<close>

definition required_fields :: "string list" where
  "required_fields =
     [''Timestamp'', ''Vendor Name'', ''Invoice Number'', ''Invoice Date'',
      ''Total Amount'', ''Currency'', ''Line Items Count'', ''Account Holder'',
      ''Bank Address'', ''Account Number/IBAN'']"

text \<open>
  \<^verbatim>\<open>process_invoice_node\<close>: the first node of the workflow. It raises \<^verbatim>\<open>ValueError\<close>
  with the list of missing keys, or returns a copy of the state with the four keys reset.
\<close>

definition process_invoice_node :: "invoice_state \<Rightarrow> error + invoice_state" where
  "process_invoice_node state =
     (let missing_fields = filter (\<lambda>field. invoice_data state field = None) required_fields
      in if missing_fields \<noteq> [] then Inl (ValueError_missing missing_fields)
         else Inr (state\<lparr>approval_status := ''pending'',
                          payment_status := ''pending'',
                          reminder_count := 0,
                          last_reminder := None\<rparr>))"

section \<open>Time remaining of the approval SLA\<close>

definition hour_us :: int where
  "hour_us = 3600000000"

definition minute_us :: int where
  "minute_us = 60000000"

text \<open>Decimal rendering of a natural number, as an f-string renders an \<^verbatim>\<open>int\<close>.\<close>

fun str_nat :: "nat \<Rightarrow> string" where
  "str_nat n =
     (if n < 10 then [''0123456789'' ! n]
      else str_nat (n div 10) @ [''0123456789'' ! (n mod 10)])"

declare str_nat.simps [simp del]

text \<open>
  \<^verbatim>\<open>sla_hours = state.get('approval_sla_hours') or self.config.approval_sla_hours\<close>:
  a missing, null or zero value of the record gives the configured one.
\<close>

definition sla_hours_of :: "int \<Rightarrow> invoice_state \<Rightarrow> int" where
  "sla_hours_of config_sla_hours state =
     (case approval_sla_hours state of
        None \<Rightarrow> config_sla_hours
      | Some h \<Rightarrow> if h \<noteq> 0 then h else config_sla_hours)"

text \<open>
  A \<^verbatim>\<open>datetime\<close>: the reading of its date and time in microseconds, and whether it
  carries a UTC offset (is ``aware''). \<^verbatim>\<open>datetime.now()\<close> carries none.
\<close>

record datetime =
  dt_us :: int
  dt_aware :: bool

text \<open>
  \<^verbatim>\<open>_compute_time_remaining\<close>. The parser \<^verbatim>\<open>datetime.fromisoformat\<close> and the clock
  \<^verbatim>\<open>datetime.now()\<close> are parameters: \<open>fromisoformat s\<close> is the \<^verbatim>\<open>datetime\<close> a string
  denotes, or \<open>None\<close> where Python raises \<^verbatim>\<open>ValueError\<close>. A timestamp with an offset
  is accepted by the parser, and the subtraction \<^verbatim>\<open>deadline - datetime.now()\<close> of a
  \<^verbatim>\<open>datetime\<close> without offset from one with offset raises \<^verbatim>\<open>TypeError\<close>. The second
  component is \<^verbatim>\<open>seconds_remaining\<close>, here in microseconds; the rounding of
  \<^verbatim>\<open>total_seconds()\<close> to a float and the year range of \<^verbatim>\<open>datetime\<close> are outside the
  model.
\<close>

definition compute_time_remaining ::
  "int \<Rightarrow> (string \<Rightarrow> datetime option) \<Rightarrow> int \<Rightarrow> invoice_state \<Rightarrow> error + (string \<times> int)" where
  "compute_time_remaining config_sla_hours fromisoformat now state =
     (case invoice_data state ''Timestamp'' of
        None \<Rightarrow> Inl (KeyError ''Timestamp'')
      | Some PyNone \<Rightarrow> Inl TypeError
      | Some (PyStr ts) \<Rightarrow>
          (case fromisoformat ts of
             None \<Rightarrow> Inl (ValueError_isoformat ts)
           | Some created_time \<Rightarrow>
               (let sla_hours = sla_hours_of config_sla_hours state;
                    deadline = created_time\<lparr>dt_us := dt_us created_time + sla_hours * hour_us\<rparr>
                in if dt_aware deadline then Inl TypeError
                   else
                     (let seconds_remaining = max 0 (dt_us deadline - now);
                          hours = seconds_remaining div hour_us;
                          minutes = (seconds_remaining mod hour_us) div minute_us;
                          time_text =
                            (if seconds_remaining > 0
                             then str_nat (nat hours) @ ''h '' @ str_nat (nat minutes) @ ''m''
                             else ''Expired'')
                      in Inr (time_text, seconds_remaining)))))"

section \<open>Strings and the patterns of the reference cascade\<close>

text \<open>
  The string operations of Python the code uses: \<^verbatim>\<open>lower\<close>, \<^verbatim>\<open>upper\<close>, \<^verbatim>\<open>strip\<close>,
  \<^verbatim>\<open>in\<close> on strings and \<^verbatim>\<open>split(' ', 1)\<close>. White space is what \<^verbatim>\<open>str.isspace\<close>,
  \<^verbatim>\<open>str.strip\<close> and the class \<^verbatim>\<open>\s\<close> of a pattern take for it among the characters below
  256: the six ASCII ones, the four separators \<^verbatim>\<open>\x1c\<close> to \<^verbatim>\<open>\x1f\<close>, the next-line
  character \<^verbatim>\<open>\x85\<close> and the no-break space \<^verbatim>\<open>\xa0\<close>. The letters and digits of the
  patterns are the ASCII ones; the case conversions are those of the ASCII letters.
\<close>

definition is_space :: "char \<Rightarrow> bool" where
  "is_space c = (c \<in> set [CHR '' '', CHR 0x09, CHR 0x0A, CHR 0x0B, CHR 0x0C, CHR 0x0D,
                           CHR 0x1C, CHR 0x1D, CHR 0x1E, CHR 0x1F, CHR 0x85, CHR 0xA0])"

definition is_digit :: "char \<Rightarrow> bool" where
  "is_digit c = (c \<in> set ''0123456789'')"

definition is_hex :: "char \<Rightarrow> bool" where
  "is_hex c = (c \<in> set ''0123456789abcdefABCDEF'')"

definition is_alnum :: "char \<Rightarrow> bool" where
  "is_alnum c = (c \<in> set ''ABCDEFGHIJKLMNOPQRSTUVWXYZabcdefghijklmnopqrstuvwxyz0123456789'')"

definition upper_char :: "char \<Rightarrow> char" where
  "upper_char c =
     (case map_of (zip ''abcdefghijklmnopqrstuvwxyz'' ''ABCDEFGHIJKLMNOPQRSTUVWXYZ'') c of
        Some d \<Rightarrow> d | None \<Rightarrow> c)"

definition lower_char :: "char \<Rightarrow> char" where
  "lower_char c =
     (case map_of (zip ''ABCDEFGHIJKLMNOPQRSTUVWXYZ'' ''abcdefghijklmnopqrstuvwxyz'') c of
        Some d \<Rightarrow> d | None \<Rightarrow> c)"

definition upper :: "string \<Rightarrow> string" where
  "upper s = map upper_char s"

definition lower :: "string \<Rightarrow> string" where
  "lower s = map lower_char s"

definition strip :: "string \<Rightarrow> string" where
  "strip s = rev (dropWhile is_space (rev (dropWhile is_space s)))"

fun py_in :: "string \<Rightarrow> string \<Rightarrow> bool" where
  "py_in sub [] = (sub = [])"
| "py_in sub (c # cs) = (take (length sub) (c # cs) = sub \<or> py_in sub cs)"

text \<open>\<^verbatim>\<open>s.split(' ', 1)\<close>: at most one split, at the first space.\<close>

definition split1 :: "string \<Rightarrow> string list" where
  "split1 s =
     (if CHR '' '' \<in> set s
      then [takeWhile (\<lambda>c. c \<noteq> CHR '' '') s, tl (dropWhile (\<lambda>c. c \<noteq> CHR '' '') s)]
      else [s])"

text \<open>
  The regular expressions of \<^verbatim>\<open>tx_patterns\<close>, each as the function that matches it at the
  head of a string and returns \<^verbatim>\<open>group(1)\<close>. All are used with \<^verbatim>\<open>re.IGNORECASE\<close>, so a
  literal letter matches in either case and \<^verbatim>\<open>[A-Z0-9]\<close> is \<open>is_alnum\<close>. The classes that
  follow one another are disjoint, so the greedy match is the only one and no backtracking
  is modelled.
\<close>

fun imatch :: "string \<Rightarrow> string \<Rightarrow> string option" where
  "imatch [] s = Some s"
| "imatch (k # ks) [] = None"
| "imatch (k # ks) (c # cs) = (if upper_char c = k then imatch ks cs else None)"

text \<open>An optional character class such as \<^verbatim>\<open>[ID]?\<close>.\<close>

definition opt_class :: "string \<Rightarrow> string \<Rightarrow> string" where
  "opt_class cls s =
     (case s of [] \<Rightarrow> [] | c # cs \<Rightarrow> if upper_char c \<in> set cls then cs else s)"

definition is_sep :: "char \<Rightarrow> bool" where
  "is_sep c = (c = CHR '':'' \<or> is_space c)"

text \<open>\<^verbatim>\<open>[:\s]+([A-Z0-9]{6,})\<close>\<close>

definition ref_group :: "string \<Rightarrow> string option" where
  "ref_group s =
     (let seps = takeWhile is_sep s;
          g = takeWhile is_alnum (dropWhile is_sep s)
      in if seps \<noteq> [] \<and> 6 \<le> length g then Some g else None)"

text \<open>\<^verbatim>\<open>(0x[a-fA-F0-9]{64})\<close>\<close>

definition m_hash :: "string \<Rightarrow> string option" where
  "m_hash s =
     (case s of
        c0 # c1 # r \<Rightarrow>
          if c0 = CHR ''0'' \<and> upper_char c1 = CHR ''X'' \<and> 64 \<le> length (takeWhile is_hex r)
          then Some (take 66 s) else None
      | _ \<Rightarrow> None)"

text \<open>\<^verbatim>\<open>TX[ID]?[:\s]+([A-Z0-9]{6,})\<close>\<close>

definition m_tx :: "string \<Rightarrow> string option" where
  "m_tx s = (case imatch ''TX'' s of None \<Rightarrow> None | Some r \<Rightarrow> ref_group (opt_class ''ID'' r))"

text \<open>\<^verbatim>\<open>TRANSACTION[ID]?[:\s]+([A-Z0-9]{6,})\<close>\<close>

definition m_transaction :: "string \<Rightarrow> string option" where
  "m_transaction s =
     (case imatch ''TRANSACTION'' s of None \<Rightarrow> None | Some r \<Rightarrow> ref_group (opt_class ''ID'' r))"

text \<open>\<^verbatim>\<open>REF[ERENCE]?:[:\s]+([A-Z0-9]{6,})\<close>: a colon, then at least one more separator.\<close>

definition m_ref :: "string \<Rightarrow> string option" where
  "m_ref s =
     (case imatch ''REF'' s of
        None \<Rightarrow> None
      | Some r \<Rightarrow>
          (case opt_class ''ERENCE'' r of
             [] \<Rightarrow> None
           | c # r' \<Rightarrow> if c = CHR '':'' then ref_group r' else None))"

text \<open>\<^verbatim>\<open>PAYMENT[:\s]+([A-Z0-9]{6,})\<close>\<close>

definition m_payment :: "string \<Rightarrow> string option" where
  "m_payment s = (case imatch ''PAYMENT'' s of None \<Rightarrow> None | Some r \<Rightarrow> ref_group r)"

text \<open>\<^verbatim>\<open>COMPLETED[:\s]+([A-Z0-9]{6,})\<close>\<close>

definition m_completed :: "string \<Rightarrow> string option" where
  "m_completed s = (case imatch ''COMPLETED'' s of None \<Rightarrow> None | Some r \<Rightarrow> ref_group r)"

text \<open>\<^verbatim>\<open>([A-Z0-9]{8,64})\<close>\<close>

definition m_bare :: "string \<Rightarrow> string option" where
  "m_bare s = (let g = takeWhile is_alnum s in if 8 \<le> length g then Some (take 64 g) else None)"

text \<open>\<^verbatim>\<open>re.search\<close>: the match at the leftmost position that has one.\<close>

fun re_search :: "(string \<Rightarrow> string option) \<Rightarrow> string \<Rightarrow> string option" where
  "re_search m [] = m []"
| "re_search m (c # cs) = (case m (c # cs) of Some g \<Rightarrow> Some g | None \<Rightarrow> re_search m cs)"

definition tx_patterns :: "(string \<Rightarrow> string option) list" where
  "tx_patterns = [m_hash, m_tx, m_transaction, m_ref, m_payment, m_completed, m_bare]"

text \<open>The loop over \<^verbatim>\<open>tx_patterns\<close>, which stops at the first pattern that is found.\<close>

fun first_match :: "(string \<Rightarrow> string option) list \<Rightarrow> string \<Rightarrow> string option" where
  "first_match [] s = None"
| "first_match (p # ps) s =
     (case re_search p s of Some g \<Rightarrow> Some g | None \<Rightarrow> first_match ps s)"

text \<open>\<^verbatim>\<open>re.fullmatch(r"0x[a-fA-F0-9]{64}", transaction_id, re.IGNORECASE)\<close>\<close>

definition is_eth_hash :: "string \<Rightarrow> bool" where
  "is_eth_hash t = (length t = 66 \<and> m_hash t = Some t)"

definition payment_keywords :: "string list" where
  "payment_keywords = [''TX'', ''TRANSACTION'', ''REF'', ''PAYMENT'', ''COMPLETED'']"

definition looks_like_payment :: "string \<Rightarrow> string \<Rightarrow> bool" where
  "looks_like_payment intent raw_content =
     (let content_upper = upper raw_content
      in intent = ''payment''
         \<or> list_ex (\<lambda>k. py_in k content_upper) payment_keywords
         \<or> re_search m_hash raw_content \<noteq> None)"

section \<open>The ledger oracle\<close>

text \<open>
  \<^verbatim>\<open>etherscan_client.py\<close>. A response body is a JSON value; an object is an association
  list. One HTTP attempt (\<^verbatim>\<open>requests.get\<close>, \<^verbatim>\<open>raise_for_status\<close>, \<^verbatim>\<open>resp.json()\<close>) is a
  function from the attempt number to the body or the exception.
\<close>

datatype json =
    JNull
  | JBool bool
  | JNum int
  | JStr string
  | JArr "json list"
  | JObj "(string \<times> json) list"

text \<open>
  \<^verbatim>\<open>_etherscan_get\<close>: three attempts, the first body wins, the last exception is raised
  again. The pauses between attempts are not modelled.
\<close>

fun etherscan_attempts ::
  "(nat \<Rightarrow> error + json) \<Rightarrow> nat \<Rightarrow> nat \<Rightarrow> error option \<Rightarrow> error + json" where
  "etherscan_attempts http attempt 0 last_err =
     Inl (case last_err of Some e \<Rightarrow> e | None \<Rightarrow> RuntimeError ''Etherscan request failed'')"
| "etherscan_attempts http attempt (Suc n) last_err =
     (case http attempt of
        Inr body \<Rightarrow> Inr body
      | Inl e \<Rightarrow> etherscan_attempts http (Suc attempt) n (Some e))"

definition etherscan_get :: "(nat \<Rightarrow> error + json) \<Rightarrow> error + json" where
  "etherscan_get http = etherscan_attempts http 0 3 None"

text \<open>Truth value of a JSON value, for \<^verbatim>\<open>data or {}\<close>.\<close>

fun json_truthy :: "json \<Rightarrow> bool" where
  "json_truthy JNull = False"
| "json_truthy (JBool b) = b"
| "json_truthy (JNum n) = (n \<noteq> 0)"
| "json_truthy (JStr s) = (s \<noteq> [])"
| "json_truthy (JArr xs) = (xs \<noteq> [])"
| "json_truthy (JObj kvs) = (kvs \<noteq> [])"

text \<open>\<^verbatim>\<open>d.get(key, default)\<close>; on a value that is no dictionary it raises.\<close>

fun dict_get :: "json \<Rightarrow> string \<Rightarrow> json \<Rightarrow> error + json" where
  "dict_get (JObj kvs) key dflt = Inr (case map_of kvs key of Some v \<Rightarrow> v | None \<Rightarrow> dflt)"
| "dict_get _ key dflt = Inl AttributeError"

definition check_transaction_success :: "(nat \<Rightarrow> error + json) \<Rightarrow> bool" where
  "check_transaction_success http =
     (case etherscan_get http of
        Inl e \<Rightarrow> False
      | Inr data \<Rightarrow>
          (case dict_get (if json_truthy data then data else JObj []) ''result'' (JObj []) of
             Inl e \<Rightarrow> False
           | Inr result \<Rightarrow>
               (case dict_get result ''status'' JNull of
                  Inl e \<Rightarrow> False
                | Inr status \<Rightarrow> status = JStr ''1'')))"

text \<open>
  \<^verbatim>\<open>get_transaction_amount_eth\<close>. The built-in \<^verbatim>\<open>int(value_hex, 16)\<close> is the parameter
  \<open>int16\<close>, \<open>None\<close> where it raises \<^verbatim>\<open>ValueError\<close>; on a value that is no string it raises
  \<^verbatim>\<open>TypeError\<close>. The quotient is exact here, a float in Python.
\<close>

definition get_transaction_amount_eth ::
  "(string \<Rightarrow> int option) \<Rightarrow> (nat \<Rightarrow> error + json) \<Rightarrow> rat" where
  "get_transaction_amount_eth int16 http =
     (case etherscan_get http of
        Inl e \<Rightarrow> 0
      | Inr data \<Rightarrow>
          (case dict_get (if json_truthy data then data else JObj []) ''result'' (JObj []) of
             Inl e \<Rightarrow> 0
           | Inr result \<Rightarrow>
               (case dict_get result ''value'' (JStr ''0x0'') of
                  Inl e \<Rightarrow> 0
                | Inr (JStr value_hex) \<Rightarrow>
                    (case int16 value_hex of
                       None \<Rightarrow> 0
                     | Some wei \<Rightarrow> of_int wei / 10 ^ 18)
                | Inr _ \<Rightarrow> 0)))"

section \<open>The record store\<close>

text \<open>
  The two tables of \<^verbatim>\<open>invoice_states.db\<close>: the state of an invoice under its number, and
  the invoice number of a thread. A stored state stands for its JSON text. The column
  \<^verbatim>\<open>invoice_number TEXT PRIMARY KEY\<close> takes \<^verbatim>\<open>NULL\<close>, and SQLite holds two \<^verbatim>\<open>NULL\<close>s of
  a key for different: the rows with a \<^verbatim>\<open>NULL\<close> number are kept apart, in the order of
  their insertion, and no comparison \<^verbatim>\<open>invoice_number = ?\<close> finds one of them.
\<close>

record db =
  invoice_states :: "string \<rightharpoonup> invoice_state"
  null_rows :: "invoice_state list"
  thread_map :: "string \<rightharpoonup> pyval"

text \<open>\<^verbatim>\<open>INSERT OR REPLACE INTO invoice_states (invoice_number, state_json, ...)\<close>\<close>

definition insert_or_replace :: "db \<Rightarrow> pyval \<Rightarrow> invoice_state \<Rightarrow> db" where
  "insert_or_replace d invoice_number state =
     (case invoice_number of
        PyStr n \<Rightarrow> d\<lparr>invoice_states := (invoice_states d)(n \<mapsto> state)\<rparr>
      | PyNone \<Rightarrow> d\<lparr>null_rows := null_rows d @ [state]\<rparr>)"

text \<open>What one \<^verbatim>\<open>execute\<close> and \<^verbatim>\<open>commit\<close> of the write may do.\<close>

datatype sqlite_result =
    Committed
  | Sqlite_OperationalError string
  | Sqlite_OtherError string

text \<open>
  The names bound at module level in \<^verbatim>\<open>discord1.py\<close>: its imports, classes and
  functions. A name that is used and is not among them raises \<^verbatim>\<open>NameError\<close>.
\<close>

definition module_names :: "string list" where
  "module_names =
     [''asyncio'', ''json'', ''re'', ''datetime'', ''timedelta'', ''Dict'', ''Any'',
      ''Optional'', ''Tuple'', ''dataclass'', ''logging'', ''os'', ''load_dotenv'',
      ''discord'', ''tasks'', ''gspread'', ''Credentials'', ''StateGraph'', ''START'',
      ''END'', ''ChatOpenAI'', ''sqlite3'', ''logger'', ''TypedDict'', ''InvoiceState'',
      ''Config'', ''check_transaction_success'', ''get_transaction_amount_eth'',
      ''InvoiceApprovalAgent'', ''main'']"

record save_outcome =
  sv_result :: "error + db"
  sv_attempts :: nat
  sv_slept :: "rat list"

text \<open>
  The loop of \<^verbatim>\<open>save_state\<close>: \<open>sq attempt\<close> is what the database does at that attempt,
  \<open>n\<close> the attempts left, \<open>delay\<close> the next pause in seconds. A loop that runs out of
  attempts ends the function without an exception.
\<close>

fun save_loop ::
  "(nat \<Rightarrow> sqlite_result) \<Rightarrow> pyval \<Rightarrow> invoice_state \<Rightarrow> db \<Rightarrow> nat \<Rightarrow> nat \<Rightarrow> rat \<Rightarrow> rat list
     \<Rightarrow> save_outcome" where
  "save_loop sq invoice_number state d attempt 0 delay slept =
     \<lparr>sv_result = Inr d, sv_attempts = attempt, sv_slept = slept\<rparr>"
| "save_loop sq invoice_number state d attempt (Suc n) delay slept =
     (case sq attempt of
        Committed \<Rightarrow>
          \<lparr>sv_result = Inr (insert_or_replace d invoice_number state),
           sv_attempts = Suc attempt, sv_slept = slept\<rparr>
      | Sqlite_OperationalError e \<Rightarrow>
          if py_in ''locked'' (lower e) \<or> py_in ''busy'' (lower e)
          then (if ''time'' \<in> set module_names
                then save_loop sq invoice_number state d (Suc attempt) n (delay * 2)
                       (slept @ [delay])
                else \<lparr>sv_result = Inl (NameError ''time''), sv_attempts = Suc attempt,
                      sv_slept = slept\<rparr>)
          else \<lparr>sv_result = Inl (OperationalError e), sv_attempts = Suc attempt,
                sv_slept = slept\<rparr>
      | Sqlite_OtherError e \<Rightarrow>
          \<lparr>sv_result = Inl (DatabaseError e), sv_attempts = Suc attempt, sv_slept = slept\<rparr>)"

definition save_state ::
  "(nat \<Rightarrow> sqlite_result) \<Rightarrow> pyval \<Rightarrow> invoice_state \<Rightarrow> db \<Rightarrow> save_outcome" where
  "save_state sq invoice_number state d =
     (let retries = 5; delay = 1 / 10
      in save_loop sq invoice_number state d 0 retries delay [])"

text \<open>\<^verbatim>\<open>SELECT state_json FROM invoice_states WHERE invoice_number = ?\<close>\<close>

definition load_state :: "db \<Rightarrow> pyval \<Rightarrow> invoice_state option" where
  "load_state d invoice_number =
     (case invoice_number of PyStr n \<Rightarrow> invoice_states d n | PyNone \<Rightarrow> None)"

section \<open>The handler of thread messages\<close>

text \<open>
  What the handler does to the outside is a list of events, in the order of the calls:
  a message sent to the thread (\<^verbatim>\<open>safe_send\<close>), a call of \<^verbatim>\<open>update_spreadsheet_row\<close>
  with the cells it writes, and the two calls of the ledger oracle. A reply is kept as
  its kind and the values that are formatted into it. The calls of the chat platform and
  of the spreadsheet are taken to return; their own failures are outside the model.
\<close>

datatype cell = CellNone | CellStr string | CellNum rat | CellNow

datatype reply =
    StatusEmbed pyval string string string "string option"
  | AlreadyDecided string string
  | ApprovedEmbed pyval string
  | AskCostCenter
  | RejectedEmbed pyval string
  | AlreadyCompleted string
  | PaymentVerified bool string pyval rat
  | PaymentConfirmed string pyval
  | FormatGuidance

datatype event =
    Send reply
  | Mirror "(int \<times> nat \<times> cell) list"
  | Ledger_status string
  | Ledger_amount string

record outcome =
  out_db :: db
  out_events :: "event list"
  out_error :: "error option"

text \<open>The result of \<^verbatim>\<open>parse_message_with_llm\<close>: four keys, each a string or null.\<close>

record parsed =
  p_intent :: "string option"
  p_cost_center :: "string option"
  p_reason :: "string option"
  p_transaction_id :: "string option"

text \<open>
  What the handler reads from its surroundings: the flags of the client, the
  configuration, the clock, the database's answer to each write attempt, the legacy scan
  of the states by thread id, the resolver and the ledger.
\<close>

record env =
  shutting_down :: bool
  client_closed :: bool
  approving_team_role_id :: int
  config_approval_sla_hours :: int
  now :: int
  fromisoformat :: "string \<Rightarrow> datetime option"
  sqlite_attempts :: "nat \<Rightarrow> sqlite_result"
  legacy_scan :: "string \<Rightarrow> (pyval \<times> invoice_state) option"
  parse_message_with_llm :: "string \<Rightarrow> invoice_state \<Rightarrow> parsed"
  receipt_status_http :: "string \<Rightarrow> nat \<Rightarrow> error + json"
  transaction_http :: "string \<Rightarrow> nat \<Rightarrow> error + json"
  int16 :: "string \<Rightarrow> int option"

text \<open>
  A message: the id of its thread, its text, the roles cached on the author, the roles
  of the member as fetched from the guild (\<open>None\<close> without a guild or when the fetch
  fails), and the two names of the author.
\<close>

record message =
  channel_id :: string
  content :: string
  author_roles :: "int list"
  fetched_roles :: "int list option"
  author_display_name :: string
  author_name :: string

definition truthy_opt :: "string option \<Rightarrow> bool" where
  "truthy_opt v = (case v of None \<Rightarrow> False | Some s \<Rightarrow> s \<noteq> [])"

text \<open>An optional string inside an f-string.\<close>

definition fmt_opt :: "string option \<Rightarrow> string" where
  "fmt_opt v = (case v of None \<Rightarrow> ''None'' | Some s \<Rightarrow> s)"

definition cell_opt :: "string option \<Rightarrow> cell" where
  "cell_opt v = (case v of None \<Rightarrow> CellNone | Some s \<Rightarrow> CellStr s)"

text \<open>\<^verbatim>\<open>update_spreadsheet_row\<close>: the calls of \<^verbatim>\<open>update_cell\<close> it makes.\<close>

definition update_spreadsheet_row :: "invoice_state \<Rightarrow> (int \<times> nat \<times> cell) list" where
  "update_spreadsheet_row state =
     (case spreadsheet_row state of
        None \<Rightarrow> []
      | Some row \<Rightarrow>
          if row = 0 then []
          else
            (let overall_status =
                   (if payment_status state = ''completed'' \<and> truthy_opt (transaction_id state)
                    then ''completed''
                    else if payment_status state = ''failed'' then ''failed''
                    else if approval_status state = ''approved'' then ''approved''
                    else if approval_status state = ''rejected'' then ''rejected''
                    else approval_status state)
             in [(row, 12, CellStr overall_status),
                 (row, 13, cell_opt (approver state)),
                 (row, 14, cell_opt (cost_center state)),
                 (row, 15, cell_opt (rejection_reason state)),
                 (row, 16, CellStr (payment_status state)),
                 (row, 17, cell_opt (transaction_id state)),
                 (row, 18, (case paid_amount_eth state of None \<Rightarrow> CellNone | Some a \<Rightarrow> CellNum a)),
                 (row, 20, CellNow)]))"

text \<open>
  \<^verbatim>\<open>self.save_state(...)\<close> followed by \<^verbatim>\<open>self.update_spreadsheet_row(state)\<close> and the
  events \<open>after\<close>: an exception of the write ends the handler before them.
\<close>

definition save_and_mirror ::
  "env \<Rightarrow> pyval \<Rightarrow> invoice_state \<Rightarrow> db \<Rightarrow> event list \<Rightarrow> event list \<Rightarrow> outcome" where
  "save_and_mirror e invoice_number state d before after =
     (case sv_result (save_state (sqlite_attempts e) invoice_number state d) of
        Inl err \<Rightarrow> \<lparr>out_db = d, out_events = before, out_error = Some err\<rparr>
      | Inr d' \<Rightarrow>
          \<lparr>out_db = d',
           out_events = before @ [Mirror (update_spreadsheet_row state)] @ after,
           out_error = None\<rparr>)"

text \<open>\<^verbatim>\<open>show_invoice_status\<close>\<close>

definition show_invoice_status :: "env \<Rightarrow> invoice_state \<Rightarrow> db \<Rightarrow> outcome" where
  "show_invoice_status e state d =
     (case invoice_data state ''Invoice Number'' of
        None \<Rightarrow> \<lparr>out_db = d, out_events = [], out_error = Some (KeyError ''Invoice Number'')\<rparr>
      | Some invoice_number \<Rightarrow>
          (let overall_status =
                 (if payment_status state = ''completed'' \<and> truthy_opt (transaction_id state)
                  then ''completed''
                  else if approval_status state = ''approved'' then ''approved''
                  else if approval_status state = ''rejected'' then ''rejected''
                  else approval_status state);
               embed = StatusEmbed invoice_number (upper overall_status)
                         (upper (approval_status state)) (upper (payment_status state))
           in if approval_status state = ''pending''
              then (case compute_time_remaining (config_approval_sla_hours e) (fromisoformat e)
                           (now e) state of
                      Inl err \<Rightarrow> \<lparr>out_db = d, out_events = [], out_error = Some err\<rparr>
                    | Inr (time_remaining_text, _) \<Rightarrow>
                        \<lparr>out_db = d, out_events = [Send (embed (Some time_remaining_text))],
                         out_error = None\<rparr>)
              else \<lparr>out_db = d, out_events = [Send (embed None)], out_error = None\<rparr>))"

text \<open>
  \<^verbatim>\<open>process_approval_message\<close>. \<open>message_content\<close> is the text the handler has put into
  the message (\<^verbatim>\<open>APPROVE <cost_center>\<close> or \<^verbatim>\<open>REJECT <reason>\<close>). The state is changed in
  memory first; the branch that asks for the cost center returns before the write.
\<close>

definition process_approval_message ::
  "env \<Rightarrow> message \<Rightarrow> string \<Rightarrow> invoice_state \<Rightarrow> string \<Rightarrow> db \<Rightarrow> outcome" where
  "process_approval_message e msg message_content state decision d =
     (let content = strip message_content
      in case invoice_data state ''Invoice Number'' of
           None \<Rightarrow> \<lparr>out_db = d, out_events = [], out_error = Some (KeyError ''Invoice Number'')\<rparr>
         | Some invoice_number \<Rightarrow>
             (let state1 = state\<lparr>approval_status := decision,
                                  approver := Some (author_display_name msg @ '' ('' @
                                                    author_name msg @ '')'')\<rparr>;
                  parts = split1 content
              in if decision = ''approved'' then
                   (if length parts > 1 then
                      (let state2 = state1\<lparr>cost_center := Some (strip (parts ! 1))\<rparr>
                       in save_and_mirror e invoice_number state2 d
                            [Send (ApprovedEmbed invoice_number (strip (parts ! 1)))] [])
                    else \<lparr>out_db = d, out_events = [Send AskCostCenter], out_error = None\<rparr>)
                 else if decision = ''rejected'' then
                   (let state2 = state1\<lparr>rejection_reason :=
                                   Some (if length parts > 1 then strip (parts ! 1)
                                         else ''No reason provided'')\<rparr>
                    in save_and_mirror e invoice_number state2 d
                         [Send (RejectedEmbed invoice_number
                                  (if length parts > 1 then strip (parts ! 1)
                                   else ''No reason provided''))] [])
                 else save_and_mirror e invoice_number state1 d [] []))"

text \<open>
  The reference of a payment message: \<^verbatim>\<open>transaction_id = parsed.get('transaction_id')\<close>
  and, when that is null or empty, the loop over \<^verbatim>\<open>tx_patterns\<close>, which leaves it as it is
  when no pattern is found.
\<close>

definition extract_transaction_id :: "parsed \<Rightarrow> string \<Rightarrow> string option" where
  "extract_transaction_id prs raw_content =
     (if \<not> truthy_opt (p_transaction_id prs)
      then (case first_match tx_patterns raw_content of
              Some g \<Rightarrow> Some g
            | None \<Rightarrow> p_transaction_id prs)
      else p_transaction_id prs)"

text \<open>
  The payment part of \<^verbatim>\<open>handle_thread_message\<close> (from the comment ``Handle payment
  confirmation regardless of approval status'' to the end), with the invoice number the
  lookup has found.
\<close>

definition handle_payment ::
  "env \<Rightarrow> pyval \<Rightarrow> invoice_state \<Rightarrow> string \<Rightarrow> parsed \<Rightarrow> string \<Rightarrow> db \<Rightarrow> outcome" where
  "handle_payment e invoice_number state raw_content prs intent d =
     (if payment_status state = ''pending'' then
        (if looks_like_payment intent raw_content then
           (if truthy_opt (transaction_id state) \<and> payment_status state = ''completed'' then
              \<lparr>out_db = d, out_events = [Send (AlreadyCompleted (fmt_opt (transaction_id state)))],
               out_error = None\<rparr>
            else
              (let tid = extract_transaction_id prs raw_content
               in if truthy_opt tid then
                    (let transaction_id' = fmt_opt tid
                     in if is_eth_hash transaction_id' then
                          (let tx_norm = lower transaction_id';
                               success = check_transaction_success (receipt_status_http e tx_norm);
                               amount_eth = get_transaction_amount_eth (int16 e)
                                              (transaction_http e tx_norm);
                               state' = state\<lparr>transaction_id := Some tx_norm,
                                               paid_amount_eth := Some amount_eth,
                                               payment_status :=
                                                 (if success then ''completed'' else ''failed'')\<rparr>
                           in save_and_mirror e invoice_number state' d
                                [Ledger_status tx_norm, Ledger_amount tx_norm]
                                [Send (PaymentVerified success transaction_id' invoice_number
                                         amount_eth)])
                        else
                          (let state' = state\<lparr>transaction_id := Some transaction_id',
                                               payment_status := ''completed''\<rparr>
                           in save_and_mirror e invoice_number state' d []
                                [Send (PaymentConfirmed transaction_id' invoice_number)]))
                  else if intent = ''payment'' then
                    \<lparr>out_db = d, out_events = [Send FormatGuidance], out_error = None\<rparr>
                  else \<lparr>out_db = d, out_events = [], out_error = None\<rparr>))
         else \<lparr>out_db = d, out_events = [], out_error = None\<rparr>)
      else \<lparr>out_db = d, out_events = [], out_error = None\<rparr>)"

text \<open>
  The lookup at the head of \<^verbatim>\<open>handle_thread_message\<close>: the thread map first; with an
  invoice number from it, the state under that number or nothing; without one, the
  legacy scan.
\<close>

definition find_state :: "env \<Rightarrow> db \<Rightarrow> string \<Rightarrow> (pyval \<times> invoice_state) option" where
  "find_state e d thread_id =
     (let invoice_number = (case thread_map d thread_id of None \<Rightarrow> PyNone | Some n \<Rightarrow> n)
      in if truthy invoice_number
         then (case load_state d invoice_number of
                 None \<Rightarrow> None
               | Some loaded \<Rightarrow> Some (invoice_number, loaded))
         else legacy_scan e thread_id)"

text \<open>The role check: the cached roles, then the roles of the fetched member.\<close>

definition has_role :: "env \<Rightarrow> message \<Rightarrow> bool" where
  "has_role e msg =
     (if list_ex (\<lambda>role. role = approving_team_role_id e) (author_roles msg) then True
      else (case fetched_roles msg of
              None \<Rightarrow> False
            | Some roles \<Rightarrow> list_ex (\<lambda>role. role = approving_team_role_id e) roles))"

text \<open>\<^verbatim>\<open>intent = (parsed.get('intent') or 'none').lower().strip()\<close>\<close>

definition intent_of :: "parsed \<Rightarrow> string" where
  "intent_of prs =
     strip (lower (if truthy_opt (p_intent prs) then fmt_opt (p_intent prs) else ''none''))"

text \<open>The handler after the lookup and the role check.\<close>

definition handle_intent ::
  "env \<Rightarrow> message \<Rightarrow> pyval \<Rightarrow> invoice_state \<Rightarrow> db \<Rightarrow> outcome" where
  "handle_intent e msg invoice_number state d =
     (let raw_content = strip (content msg);
          prs = parse_message_with_llm e raw_content state;
          intent = intent_of prs
      in if intent = ''status'' then show_invoice_status e state d
         else if approval_status state \<noteq> ''pending''
                 \<and> (intent = ''approve'' \<or> intent = ''reject'') then
           \<lparr>out_db = d,
            out_events = [Send (AlreadyDecided (upper (approval_status state))
                                  (fmt_opt (approver state)))],
            out_error = None\<rparr>
         else if approval_status state = ''pending'' \<and> intent = ''approve'' then
           process_approval_message e msg
             (if truthy_opt (p_cost_center prs)
              then ''APPROVE '' @ fmt_opt (p_cost_center prs) else ''APPROVE'')
             state ''approved'' d
         else if approval_status state = ''pending'' \<and> intent = ''reject'' then
           process_approval_message e msg
             (strip (''REJECT '' @ (if truthy_opt (p_reason prs) then fmt_opt (p_reason prs)
                                     else [])))
             state ''rejected'' d
         else handle_payment e invoice_number state raw_content prs intent d)"

text \<open>\<^verbatim>\<open>handle_thread_message\<close>\<close>

definition handle_thread_message :: "env \<Rightarrow> message \<Rightarrow> db \<Rightarrow> outcome" where
  "handle_thread_message e msg d =
     (if shutting_down e \<or> client_closed e then
        \<lparr>out_db = d, out_events = [], out_error = None\<rparr>
      else
        (case find_state e d (channel_id msg) of
           None \<Rightarrow> \<lparr>out_db = d, out_events = [], out_error = None\<rparr>
         | Some (invoice_number, state) \<Rightarrow>
             if \<not> has_role e msg then \<lparr>out_db = d, out_events = [], out_error = None\<rparr>
             else handle_intent e msg invoice_number state d))"

text \<open>The number of calls of \<^verbatim>\<open>update_spreadsheet_row\<close> among the events.\<close>

definition mirror_calls :: "event list \<Rightarrow> nat" where
  "mirror_calls evs = length (filter (\<lambda>ev. case ev of Mirror c \<Rightarrow> True | _ \<Rightarrow> False) evs)"

section \<open>The creation of a record\<close>

text \<open>
  \<^verbatim>\<open>process_invoice\<close> and the workflow it runs: \<^verbatim>\<open>process_invoice_node\<close>,
  \<^verbatim>\<open>post_to_discord_node\<close>, \<^verbatim>\<open>update_spreadsheet_node\<close>, \<^verbatim>\<open>finalize_invoice_node\<close>, each
  on the state the one before has returned. An exception of a node ends the workflow and
  is raised again by \<^verbatim>\<open>process_invoice\<close>. The outcome is the store and the returned text or
  the exception; what is sent to the chat platform and to the spreadsheet on the way is
  not recorded.

  What the workflow reads from its surroundings, besides the flags, the configuration,
  the clock, the parser of timestamps and the database's answers to the first write of
  the record, which are those of the handler:
  \<^item> \<open>post_result\<close>: the resolution of the channel, the post of the notice and the
    creation of the thread (lines 295 to 362), which give the ids of the thread and of
    the message (none for a forum thread) or raise;
  \<^item> \<open>get_channel\<close>: \<^verbatim>\<open>self.discord_client.get_channel(int(thread_id))\<close>, which raises
    where the id is no number and else tells whether the client has the thread;
  \<^item> \<open>sla_fetch_edit\<close>: whether the stored countdown message is fetched and edited;
  \<^item> \<open>sla_send\<close>: the id of the countdown message that \<^verbatim>\<open>channel.send\<close> posts, or
    \<open>None\<close> when it fails;
  \<^item> the database's answers to the write of the thread map and to the write of
    \<^verbatim>\<open>update_spreadsheet_node\<close>, whether each \<^verbatim>\<open>append_row\<close> succeeds, and the number of
    rows of the sheet after it.
\<close>

record workflow_env =
  handler_env :: env
  post_result :: "error + nat \<times> nat option"
  get_channel :: "string \<Rightarrow> error + bool"
  sla_fetch_edit :: bool
  sla_send :: "nat option"
  thread_map_attempts :: "nat \<Rightarrow> sqlite_result"
  append_row_attempts :: "nat \<Rightarrow> bool"
  sheet_rows :: nat
  spreadsheet_attempts :: "nat \<Rightarrow> sqlite_result"

text \<open>
  \<^verbatim>\<open>post_or_update_sla_message\<close>: \<open>None\<close> when there is nothing to post or the post
  fails, the state with the id of the countdown message otherwise. The time that remains
  is computed outside the \<^verbatim>\<open>try\<close>, so its exception is raised.
\<close>

definition post_or_update_sla_message ::
  "workflow_env \<Rightarrow> invoice_state \<Rightarrow> error + invoice_state option" where
  "post_or_update_sla_message w state =
     (if approval_status state \<noteq> ''pending'' then Inr None
      else if \<not> truthy_opt (discord_thread_id state) then Inr None
      else
        (case get_channel w (fmt_opt (discord_thread_id state)) of
           Inl err \<Rightarrow> Inl err
         | Inr thread \<Rightarrow>
             if \<not> thread then Inr None
             else
               (case compute_time_remaining (config_approval_sla_hours (handler_env w))
                       (fromisoformat (handler_env w)) (now (handler_env w)) state of
                  Inl err \<Rightarrow> Inl err
                | Inr (time_text, seconds_remaining) \<Rightarrow>
                    (case invoice_data state ''Invoice Number'' of
                       None \<Rightarrow> Inl (KeyError ''Invoice Number'')
                     | Some invoice_number \<Rightarrow>
                         if truthy_opt (sla_message_id state) \<and> sla_fetch_edit w
                         then Inr (Some state)
                         else
                           (case (if shutting_down (handler_env w) \<or> client_closed (handler_env w)
                                  then None else sla_send w) of
                              None \<Rightarrow> Inr None
                            | Some msg_id \<Rightarrow>
                                Inr (Some (state\<lparr>sla_message_id := Some (str_nat msg_id)\<rparr>)))))))"

text \<open>
  The loop that writes the thread map in \<^verbatim>\<open>post_to_discord_node\<close>, of the same shape as
  the one of \<^verbatim>\<open>save_state\<close>.
\<close>

fun thread_map_loop ::
  "(nat \<Rightarrow> sqlite_result) \<Rightarrow> string \<Rightarrow> pyval \<Rightarrow> db \<Rightarrow> nat \<Rightarrow> nat \<Rightarrow> error + db" where
  "thread_map_loop sq thread_id invoice_number d attempt 0 = Inr d"
| "thread_map_loop sq thread_id invoice_number d attempt (Suc n) =
     (case sq attempt of
        Committed \<Rightarrow> Inr (d\<lparr>thread_map := (thread_map d)(thread_id \<mapsto> invoice_number)\<rparr>)
      | Sqlite_OperationalError e \<Rightarrow>
          if py_in ''locked'' (lower e) \<or> py_in ''busy'' (lower e)
          then (if ''time'' \<in> set module_names
                then thread_map_loop sq thread_id invoice_number d (Suc attempt) n
                else Inl (NameError ''time''))
          else Inl (OperationalError e)
      | Sqlite_OtherError e \<Rightarrow> Inl (DatabaseError e))"

text \<open>The keys of the payload that the notice reads, in the order of the reads.\<close>

definition embed_keys :: "string list" where
  "embed_keys =
     [''Vendor Name'', ''Invoice Number'', ''Invoice Date'', ''Total Amount'', ''Currency'',
      ''Account Holder'', ''Bank Address'', ''Account Number/IBAN'', ''Line Items Count'',
      ''Timestamp'']"

text \<open>
  \<^verbatim>\<open>post_to_discord_node\<close>. The write of the record (\<^verbatim>\<open>self.save_state\<close>, line 375) comes
  after the post and after the countdown message; it is the first write of the workflow.
  An exception of the write of the thread map is logged and dropped.
\<close>

definition post_to_discord_node ::
  "workflow_env \<Rightarrow> invoice_state \<Rightarrow> db \<Rightarrow> db \<times> (error + invoice_state)" where
  "post_to_discord_node w state d =
     (case filter (\<lambda>key. invoice_data state key = None) embed_keys of
        key # keys \<Rightarrow> (d, Inl (KeyError key))
      | [] \<Rightarrow>
          (case post_result w of
             Inl err \<Rightarrow> (d, Inl err)
           | Inr (thread, message) \<Rightarrow>
               (let posted = state\<lparr>discord_thread_id := Some (str_nat thread),
                                   discord_message_id :=
                                     Some (case message of
                                             Some m \<Rightarrow> str_nat m
                                           | None \<Rightarrow> str_nat thread)\<rparr>
                in case post_or_update_sla_message w posted of
                     Inl err \<Rightarrow> (d, Inl err)
                   | Inr updated_state \<Rightarrow>
                       (let new_state = (case updated_state of Some s \<Rightarrow> s | None \<Rightarrow> posted)
                        in case invoice_data state ''Invoice Number'' of
                             None \<Rightarrow> (d, Inl (KeyError ''Invoice Number''))
                           | Some invoice_number \<Rightarrow>
                               (case sv_result (save_state (sqlite_attempts (handler_env w))
                                                  invoice_number new_state d) of
                                  Inl err \<Rightarrow> (d, Inl err)
                                | Inr d' \<Rightarrow>
                                    (case thread_map_loop (thread_map_attempts w)
                                            (str_nat thread) invoice_number d' 0 5 of
                                       Inl err \<Rightarrow> (d', Inr new_state)
                                     | Inr d'' \<Rightarrow> (d'', Inr new_state)))))))"

text \<open>
  The loop of \<^verbatim>\<open>update_spreadsheet_node\<close> around \<^verbatim>\<open>append_row\<close>, attempts 1 to 3. After
  a failure it calls \<^verbatim>\<open>time.sleep\<close>; after the last one a bare \<^verbatim>\<open>raise\<close> stands outside
  every handler.
\<close>

fun append_loop :: "(nat \<Rightarrow> bool) \<Rightarrow> nat \<Rightarrow> nat \<Rightarrow> error + unit" where
  "append_loop ap attempt 0 = Inl (RuntimeError ''No active exception to reraise'')"
| "append_loop ap attempt (Suc n) =
     (if ap attempt then Inr ()
      else if ''time'' \<in> set module_names then append_loop ap (Suc attempt) n
      else Inl (NameError ''time''))"

text \<open>
  \<^verbatim>\<open>update_spreadsheet_node\<close>: the row is built from the ten keys of the payload, in the
  order of \<open>required_fields\<close>, and appended; the state with the number of the row is
  written over the record.
\<close>

definition update_spreadsheet_node ::
  "workflow_env \<Rightarrow> invoice_state \<Rightarrow> db \<Rightarrow> db \<times> (error + invoice_state)" where
  "update_spreadsheet_node w state d =
     (case filter (\<lambda>key. invoice_data state key = None) required_fields of
        key # keys \<Rightarrow> (d, Inl (KeyError key))
      | [] \<Rightarrow>
          (case append_loop (append_row_attempts w) 1 3 of
             Inl err \<Rightarrow> (d, Inl err)
           | Inr u \<Rightarrow>
               (let new_state = state\<lparr>spreadsheet_row := Some (int (sheet_rows w))\<rparr>
                in case invoice_data state ''Invoice Number'' of
                     None \<Rightarrow> (d, Inl (KeyError ''Invoice Number''))
                   | Some invoice_number \<Rightarrow>
                       (case sv_result (save_state (spreadsheet_attempts w) invoice_number
                                          new_state d) of
                          Inl err \<Rightarrow> (d, Inl err)
                        | Inr d' \<Rightarrow> (d', Inr new_state)))))"

definition finalize_invoice_node :: "invoice_state \<Rightarrow> error + invoice_state" where
  "finalize_invoice_node state =
     (case invoice_data state ''Invoice Number'' of
        None \<Rightarrow> Inl (KeyError ''Invoice Number'')
      | Some invoice_number \<Rightarrow> Inr state)"

text \<open>A value of the payload inside an f-string.\<close>

definition fmt_pyval :: "pyval \<Rightarrow> string" where
  "fmt_pyval v = (case v of PyNone \<Rightarrow> ''None'' | PyStr s \<Rightarrow> s)"

record creation =
  cr_db :: db
  cr_result :: "error + string"

text \<open>
  \<^verbatim>\<open>process_invoice\<close>, the entry point for a new invoice. It reads the invoice number
  from the payload before it runs the workflow.
\<close>

definition process_invoice :: "workflow_env \<Rightarrow> (string \<rightharpoonup> pyval) \<Rightarrow> db \<Rightarrow> creation" where
  "process_invoice w payload d =
     (let initial_state =
            \<lparr>invoice_data = payload,
             discord_thread_id = None,
             discord_message_id = None,
             approval_status = ''pending'',
             cost_center = None,
             approver = None,
             rejection_reason = None,
             payment_status = ''pending'',
             transaction_id = None,
             paid_amount_eth = None,
             reminder_count = 0,
             last_reminder = None,
             spreadsheet_row = None,
             sla_message_id = None,
             approval_sla_hours = Some (config_approval_sla_hours (handler_env w))\<rparr>
      in case payload ''Invoice Number'' of
           None \<Rightarrow> \<lparr>cr_db = d, cr_result = Inl (KeyError ''Invoice Number'')\<rparr>
         | Some invoice_number \<Rightarrow>
             (case process_invoice_node initial_state of
                Inl err \<Rightarrow> \<lparr>cr_db = d, cr_result = Inl err\<rparr>
              | Inr validated \<Rightarrow>
                  (case post_to_discord_node w validated d of
                     (d1, Inl err) \<Rightarrow> \<lparr>cr_db = d1, cr_result = Inl err\<rparr>
                   | (d1, Inr posted) \<Rightarrow>
                       (case update_spreadsheet_node w posted d1 of
                          (d2, Inl err) \<Rightarrow> \<lparr>cr_db = d2, cr_result = Inl err\<rparr>
                        | (d2, Inr mirrored) \<Rightarrow>
                            (case finalize_invoice_node mirrored of
                               Inl err \<Rightarrow> \<lparr>cr_db = d2, cr_result = Inl err\<rparr>
                             | Inr final \<Rightarrow>
                                 \<lparr>cr_db = d2,
                                  cr_result = Inr (''Invoice '' @ fmt_pyval invoice_number @
                                                   '' submitted for approval'')\<rparr>)))))"

text \<open>
  Whether the table of the states holds the state \<open>record\<close> under the invoice number
  \<open>invoice_number\<close>: as the row of that number, or as one of the rows without number
  when the number is null.
\<close>

definition stored :: "db \<Rightarrow> pyval \<Rightarrow> invoice_state \<Rightarrow> bool" where
  "stored d invoice_number state =
     (case invoice_number of
        PyStr n \<Rightarrow> invoice_states d n = Some state
      | PyNone \<Rightarrow> state \<in> set (null_rows d))"

section \<open>Sample inputs\<close>

text \<open>
  A payload with every required key (one value empty, one null), a pending record made
  from it, and the surroundings of one message in its thread. They are the concrete
  inputs at which the theorems below are instantiated.
\<close>

definition sample_invoice :: "string \<rightharpoonup> pyval" where
  "sample_invoice =
     map_of [(''Timestamp'', PyStr ''2025-08-05T10:00:00''),
             (''Vendor Name'', PyStr ''Acme Corp''),
             (''Invoice Number'', PyStr ''INV-1''),
             (''Invoice Date'', PyStr ''2025-08-05''),
             (''Total Amount'', PyStr ''1500.00''),
             (''Currency'', PyStr ''USD''),
             (''Line Items Count'', PyStr ''3''),
             (''Account Holder'', PyStr []),
             (''Bank Address'', PyNone),
             (''Account Number/IBAN'', PyStr ''US1234567890'')]"

definition sample_state :: invoice_state where
  "sample_state =
     \<lparr>invoice_data = sample_invoice,
      discord_thread_id = Some ''1001'',
      discord_message_id = Some ''2002'',
      approval_status = ''pending'',
      cost_center = None,
      approver = None,
      rejection_reason = None,
      payment_status = ''pending'',
      transaction_id = None,
      paid_amount_eth = None,
      reminder_count = 0,
      last_reminder = None,
      spreadsheet_row = Some 2,
      sla_message_id = None,
      approval_sla_hours = Some 24\<rparr>"

definition approved_state :: invoice_state where
  "approved_state =
     sample_state\<lparr>approval_status := ''approved'',
                    approver := Some ''Dana (dana)'',
                    cost_center := Some ''CC-42''\<rparr>"

definition paid_state :: invoice_state where
  "paid_state =
     approved_state\<lparr>payment_status := ''completed'', transaction_id := Some ''ABC123456789''\<rparr>"

definition sample_db :: "invoice_state \<Rightarrow> db" where
  "sample_db state =
     \<lparr>invoice_states = [''INV-1'' \<mapsto> state],
      null_rows = [],
      thread_map = [''1001'' \<mapsto> PyStr ''INV-1'']\<rparr>"

definition sample_parsed :: "string \<Rightarrow> string option \<Rightarrow> parsed" where
  "sample_parsed intent cc =
     \<lparr>p_intent = Some intent, p_cost_center = cc, p_reason = None, p_transaction_id = None\<rparr>"

text \<open>
  The surroundings: the resolver answers \<open>prs\<close>, the database answers \<open>sq\<close>, the
  ledger answers \<open>receipt\<close> and \<open>tx\<close> at every attempt.
\<close>

definition sample_env ::
  "parsed \<Rightarrow> (nat \<Rightarrow> sqlite_result) \<Rightarrow> (error + json) \<Rightarrow> (error + json) \<Rightarrow> env" where
  "sample_env prs sq receipt tx =
     \<lparr>shutting_down = False,
      client_closed = False,
      approving_team_role_id = 7,
      config_approval_sla_hours = 24,
      now = 0,
      fromisoformat = (\<lambda>s. Some \<lparr>dt_us = 0, dt_aware = False\<rparr>),
      sqlite_attempts = sq,
      legacy_scan = (\<lambda>t. None),
      parse_message_with_llm = (\<lambda>c s. prs),
      receipt_status_http = (\<lambda>h a. receipt),
      transaction_http = (\<lambda>h a. tx),
      int16 = (\<lambda>s. if s = ''0xde0b6b3a7640000'' then Some 1000000000000000000 else None)\<rparr>"

definition sample_message :: "string \<Rightarrow> message" where
  "sample_message text =
     \<lparr>channel_id = ''1001'',
      content = text,
      author_roles = [3, 7],
      fetched_roles = None,
      author_display_name = ''Dana'',
      author_name = ''dana''\<rparr>"

definition always_commit :: "nat \<Rightarrow> sqlite_result" where
  "always_commit attempt = Committed"

definition locked_once :: "nat \<Rightarrow> sqlite_result" where
  "locked_once attempt =
     (if attempt = 0 then Sqlite_OperationalError ''database is locked'' else Committed)"

definition receipt_ok :: "error + json" where
  "receipt_ok =
     Inr (JObj [(''status'', JStr ''1''), (''message'', JStr ''OK''),
                (''result'', JObj [(''status'', JStr ''1'')])])"


definition tx_one_ether :: "error + json" where
  "tx_one_ether = Inr (JObj [(''result'', JObj [(''value'', JStr ''0xde0b6b3a7640000'')])])"




text \<open>
  The surroundings of a creation: the post gives thread 1001 and message 2002, the client
  has the thread, the countdown message gets the id 3003, every write commits, the row is
  appended at the first attempt and is the second row of the sheet.
\<close>

definition sample_workflow :: workflow_env where
  "sample_workflow =
     \<lparr>handler_env = sample_env (sample_parsed ''none'' None) always_commit receipt_ok
                      tx_one_ether,
      post_result = Inr (1001, Some 2002),
      get_channel = (\<lambda>thread_id. Inr True),
      sla_fetch_edit = False,
      sla_send = Some 3003,
      thread_map_attempts = always_commit,
      append_row_attempts = (\<lambda>attempt. True),
      sheet_rows = 2,
      spreadsheet_attempts = always_commit\<rparr>"

definition empty_db :: db where
  "empty_db = \<lparr>invoice_states = Map.empty, null_rows = [], thread_map = Map.empty\<rparr>"

text \<open>The record that the creation of the sample payload leaves in the store.\<close>

definition created_state :: invoice_state where
  "created_state = sample_state\<lparr>sla_message_id := Some ''3003''\<rparr>"


section \<open>Properties\<close>

lemma filter_empty_iff_all: "(filter P xs \<noteq> []) = (\<exists>x\<in>set xs. P x)"
  by (induction xs) auto

subsection \<open>The sample surroundings\<close>

lemma handle_thread_message_reached:
  "\<not> shutting_down e \<Longrightarrow> \<not> client_closed e \<Longrightarrow> find_state e d (channel_id msg) = Some (k, st)
   \<Longrightarrow> has_role e msg \<Longrightarrow> handle_thread_message e msg d = handle_intent e msg k st d"
  by (simp add: handle_thread_message_def)

lemma sample_find:
  "find_state (sample_env p sq r t) (sample_db st) (channel_id (sample_message txt))
     = Some (PyStr ''INV-1'', st)"
  by (simp add: find_state_def sample_env_def sample_db_def sample_message_def load_state_def)

lemma sample_role: "has_role (sample_env p sq r t) (sample_message txt)"
  by (simp add: has_role_def sample_env_def sample_message_def)

lemma sample_flags:
  "\<not> shutting_down (sample_env p sq r t)" "\<not> client_closed (sample_env p sq r t)"
  by (simp_all add: sample_env_def)

lemma sample_resolver: "parse_message_with_llm (sample_env p sq r t) c s = p"
  by (simp add: sample_env_def)

subsection \<open>Decisions are final\<close>

text \<open>
  Claim C1. An authorised message whose intent is approve or reject, in the thread of a
  record that is already approved or rejected, changes nothing in the store and sends one
  reply: the acknowledgment with the current status in upper case and the approver. No
  spreadsheet call, no ledger call and no exception come with it.
\<close>

theorem approval_status_terminal:
  assumes "\<not> shutting_down e" and "\<not> client_closed e"
    and "find_state e d (channel_id msg) = Some (k, st)"
    and "has_role e msg"
    and "approval_status st = ''approved'' \<or> approval_status st = ''rejected''"
    and "intent_of (parse_message_with_llm e (strip (content msg)) st) = ''approve''
         \<or> intent_of (parse_message_with_llm e (strip (content msg)) st) = ''reject''"
  shows "handle_thread_message e msg d =
           \<lparr>out_db = d,
            out_events = [Send (AlreadyDecided (upper (approval_status st)) (fmt_opt (approver st)))],
            out_error = None\<rparr>"
proof -
  have h: "handle_thread_message e msg d = handle_intent e msg k st d"
    using assms(1-4) by (rule handle_thread_message_reached)
  have np: "approval_status st \<noteq> ''pending''" using assms(5) by auto
  show ?thesis unfolding h using np assms(6) by (auto simp add: handle_intent_def Let_def)
qed

theorem approval_status_terminal_witness:
  "handle_thread_message
     (sample_env (sample_parsed ''Reject'' None) always_commit receipt_ok tx_one_ether)
     (sample_message ''REJECT spam'') (sample_db approved_state)
   = \<lparr>out_db = sample_db approved_state,
      out_events = [Send (AlreadyDecided ''APPROVED'' ''Dana (dana)'')],
      out_error = None\<rparr>"
proof -
  let ?e = "sample_env (sample_parsed ''Reject'' None) always_commit receipt_ok tx_one_ether"
  have i: "intent_of (sample_parsed ''Reject'' None) = ''reject''"
    by (simp add: intent_of_def sample_parsed_def truthy_opt_def fmt_opt_def lower_def
        lower_char_def strip_def is_space_def)
  have "handle_thread_message ?e (sample_message ''REJECT spam'') (sample_db approved_state) =
           \<lparr>out_db = sample_db approved_state,
            out_events = [Send (AlreadyDecided (upper (approval_status approved_state))
                                  (fmt_opt (approver approved_state)))],
            out_error = None\<rparr>"
    by (rule approval_status_terminal [where k = "PyStr ''INV-1''" and st = approved_state])
       (simp_all add: sample_find sample_role sample_flags sample_resolver i,
        simp add: approved_state_def sample_state_def)
  then show ?thesis
    by (simp add: approved_state_def sample_state_def upper_def upper_char_def fmt_opt_def)
qed

subsection \<open>Approval of a pending record\<close>

lemma save_state_first_commit:
  "sq 0 = Committed \<Longrightarrow>
   sv_result (save_state sq k st d) = Inr (insert_or_replace d k st)"
  by (simp add: save_state_def numeral_eq_Suc)

lemma save_and_mirror_commit:
  "sqlite_attempts e 0 = Committed \<Longrightarrow>
   save_and_mirror e k st d before after =
     \<lparr>out_db = insert_or_replace d k st,
      out_events = before @ [Mirror (update_spreadsheet_row st)] @ after,
      out_error = None\<rparr>"
  by (simp add: save_and_mirror_def save_state_first_commit)

lemma strip_id:
  assumes "s \<noteq> []" and "\<not> is_space (hd s)" and "\<not> is_space (last s)"
  shows "strip s = s"
proof -
  have front: "dropWhile is_space s = s" using assms(1,2) by (cases s) auto
  from assms(1) obtain xs x where s: "s = xs @ [x]" by (cases s rule: rev_cases) auto
  have rear: "dropWhile is_space (rev s) = rev s" using assms(3) by (simp add: s)
  show ?thesis by (simp add: strip_def front rear)
qed

lemma approve_literal: "strip ''APPROVE'' = ''APPROVE''" "split1 ''APPROVE'' = [''APPROVE'']"
  by (simp_all add: strip_def is_space_def split1_def)

lemma sample_intent:
  "intent_of (sample_parsed ''approve'' cc) = ''approve''"
  "intent_of (sample_parsed ''payment'' cc) = ''payment''"
  "intent_of (sample_parsed ''none'' cc) = ''none''"
  by (simp_all add: intent_of_def sample_parsed_def truthy_opt_def fmt_opt_def lower_def
      lower_char_def strip_def is_space_def)

text \<open>
  Claim C5. An authorised message whose intent is approve and whose resolver result has no
  cost centre (null or empty), in the thread of a pending record that has its invoice
  number, gets the one reply that asks for the cost centre; nothing is written, so the
  stored record is what it was: still pending, its approver as before. (The handler has
  set both in its own copy of the state, which it drops.)
\<close>

theorem approve_without_cost_center:
  assumes "\<not> shutting_down e" and "\<not> client_closed e"
    and "find_state e d (channel_id msg) = Some (k, st)"
    and "has_role e msg"
    and "approval_status st = ''pending''"
    and "intent_of (parse_message_with_llm e (strip (content msg)) st) = ''approve''"
    and "\<not> truthy_opt (p_cost_center (parse_message_with_llm e (strip (content msg)) st))"
    and "invoice_data st ''Invoice Number'' = Some num"
  shows "handle_thread_message e msg d =
           \<lparr>out_db = d, out_events = [Send AskCostCenter], out_error = None\<rparr>
         \<and> find_state e (out_db (handle_thread_message e msg d)) (channel_id msg) = Some (k, st)"
proof -
  have h: "handle_thread_message e msg d = handle_intent e msg k st d"
    using assms(1-4) by (rule handle_thread_message_reached)
  have "handle_intent e msg k st d =
      process_approval_message e msg ''APPROVE'' st ''approved'' d"
    using assms(5-7) by (simp add: handle_intent_def Let_def)
  also have "\<dots> = \<lparr>out_db = d, out_events = [Send AskCostCenter], out_error = None\<rparr>"
    using assms(8) by (simp add: process_approval_message_def Let_def approve_literal)
  finally have r: "handle_intent e msg k st d =
      \<lparr>out_db = d, out_events = [Send AskCostCenter], out_error = None\<rparr>" .
  show ?thesis unfolding h r using assms(3) by simp
qed

theorem approve_without_cost_center_witness:
  "handle_thread_message
     (sample_env (sample_parsed ''approve'' None) always_commit receipt_ok tx_one_ether)
     (sample_message ''approve please'') (sample_db sample_state)
   = \<lparr>out_db = sample_db sample_state, out_events = [Send AskCostCenter], out_error = None\<rparr>
   \<and> approval_status sample_state = ''pending'' \<and> approver sample_state = None"
proof -
  let ?e = "sample_env (sample_parsed ''approve'' None) always_commit receipt_ok tx_one_ether"
  have "handle_thread_message ?e (sample_message ''approve please'') (sample_db sample_state)
      = \<lparr>out_db = sample_db sample_state, out_events = [Send AskCostCenter], out_error = None\<rparr>
      \<and> find_state ?e (out_db (handle_thread_message ?e (sample_message ''approve please'')
            (sample_db sample_state))) (channel_id (sample_message ''approve please''))
          = Some (PyStr ''INV-1'', sample_state)"
    by (rule approve_without_cost_center [where num = "PyStr ''INV-1''"])
       (simp_all add: sample_find sample_role sample_flags sample_resolver sample_intent,
        simp_all add: sample_state_def sample_parsed_def truthy_opt_def sample_invoice_def)
  then show ?thesis by (simp add: sample_state_def)
qed

lemma approve_with_token:
  assumes "cc \<noteq> []" and "\<not> is_space (hd cc)" and "\<not> is_space (last cc)"
  shows "strip (''APPROVE '' @ cc) = ''APPROVE '' @ cc"
    and "split1 (''APPROVE '' @ cc) = [''APPROVE'', cc]"
    and "strip cc = cc"
proof -
  have "last (''APPROVE '' @ cc) = last cc" using assms(1) by simp
  then show "strip (''APPROVE '' @ cc) = ''APPROVE '' @ cc"
    using assms by (intro strip_id) (simp_all add: is_space_def)
  show "split1 (''APPROVE '' @ cc) = [''APPROVE'', cc]" by (simp add: split1_def)
  show "strip cc = cc" using assms by (rule strip_id)
qed

text \<open>
  Claim C2. An authorised message whose intent is approve and whose resolver result has the
  cost centre \<open>cc\<close> (not empty, no white space at either end; \<^verbatim>\<open>CC-42\<close> is one), in
  the thread of a pending record, with a database that commits the write: the state with
  \<open>approval_status\<close> approved, the approver built from the author's two names and
  \<open>cost_center = cc\<close> is written to the store under the invoice number of the record
  (\<^verbatim>\<open>INSERT OR REPLACE\<close>); when that number is a string, reading the store under it gives
  this state. The confirmation is sent and \<^verbatim>\<open>update_spreadsheet_row\<close> is called exactly
  once, after the write.
\<close>

theorem approve_with_cost_center:
  assumes "\<not> shutting_down e" and "\<not> client_closed e"
    and "find_state e d (channel_id msg) = Some (k, st)"
    and "has_role e msg"
    and "approval_status st = ''pending''"
    and "intent_of (parse_message_with_llm e (strip (content msg)) st) = ''approve''"
    and "p_cost_center (parse_message_with_llm e (strip (content msg)) st) = Some cc"
    and "cc \<noteq> []" and "\<not> is_space (hd cc)" and "\<not> is_space (last cc)"
    and "invoice_data st ''Invoice Number'' = Some num"
    and "sqlite_attempts e 0 = Committed"
    and "st' = st\<lparr>approval_status := ''approved'',
                   approver := Some (author_display_name msg @ '' ('' @ author_name msg @ '')''),
                   cost_center := Some cc\<rparr>"
  shows "handle_thread_message e msg d =
           \<lparr>out_db = insert_or_replace d num st',
            out_events = [Send (ApprovedEmbed num cc), Mirror (update_spreadsheet_row st')],
            out_error = None\<rparr>
         \<and> mirror_calls (out_events (handle_thread_message e msg d)) = 1
         \<and> (\<forall>n. num = PyStr n \<longrightarrow>
               load_state (out_db (handle_thread_message e msg d)) num = Some st')"
proof -
  have h: "handle_thread_message e msg d = handle_intent e msg k st d"
    using assms(1-4) by (rule handle_thread_message_reached)
  have t: "truthy_opt (Some cc)" using assms(8) by (simp add: truthy_opt_def)
  have "handle_intent e msg k st d =
      process_approval_message e msg (''APPROVE '' @ cc) st ''approved'' d"
    using assms(5-7) t by (simp add: handle_intent_def Let_def fmt_opt_def)
  also have "\<dots> = save_and_mirror e num st' d [Send (ApprovedEmbed num cc)] []"
    using assms(11,13) approve_with_token [OF assms(8-10)]
    by (simp add: process_approval_message_def Let_def)
  also have "\<dots> = \<lparr>out_db = insert_or_replace d num st',
            out_events = [Send (ApprovedEmbed num cc), Mirror (update_spreadsheet_row st')],
            out_error = None\<rparr>"
    using assms(12) by (simp add: save_and_mirror_commit)
  finally have r: "handle_intent e msg k st d =
           \<lparr>out_db = insert_or_replace d num st',
            out_events = [Send (ApprovedEmbed num cc), Mirror (update_spreadsheet_row st')],
            out_error = None\<rparr>" .
  show ?thesis unfolding h r
    by (simp add: mirror_calls_def load_state_def insert_or_replace_def)
qed

theorem approve_with_cost_center_witness:
  "handle_thread_message
     (sample_env (sample_parsed ''approve'' (Some ''CC-42'')) always_commit receipt_ok tx_one_ether)
     (sample_message ''APPROVE CC-42'') (sample_db sample_state)
   = \<lparr>out_db = sample_db approved_state,
      out_events = [Send (ApprovedEmbed (PyStr ''INV-1'') ''CC-42''),
                    Mirror [(2, 12, CellStr ''approved''), (2, 13, CellStr ''Dana (dana)''),
                            (2, 14, CellStr ''CC-42''), (2, 15, CellNone),
                            (2, 16, CellStr ''pending''), (2, 17, CellNone),
                            (2, 18, CellNone), (2, 20, CellNow)]],
      out_error = None\<rparr>
   \<and> load_state (sample_db approved_state) (PyStr ''INV-1'') = Some approved_state"
proof -
  let ?e = "sample_env (sample_parsed ''approve'' (Some ''CC-42'')) always_commit receipt_ok
              tx_one_ether"
  let ?m = "sample_message ''APPROVE CC-42''"
  have st: "approved_state = sample_state\<lparr>approval_status := ''approved'',
               approver := Some (author_display_name ?m @ '' ('' @ author_name ?m @ '')''),
               cost_center := Some ''CC-42''\<rparr>"
    by (simp add: approved_state_def sample_message_def)
  have "handle_thread_message ?e ?m (sample_db sample_state) =
           \<lparr>out_db = insert_or_replace (sample_db sample_state) (PyStr ''INV-1'') approved_state,
            out_events = [Send (ApprovedEmbed (PyStr ''INV-1'') ''CC-42''),
                          Mirror (update_spreadsheet_row approved_state)],
            out_error = None\<rparr>
         \<and> mirror_calls (out_events (handle_thread_message ?e ?m (sample_db sample_state))) = 1
         \<and> (\<forall>n. PyStr ''INV-1'' = PyStr n \<longrightarrow>
               load_state (out_db (handle_thread_message ?e ?m (sample_db sample_state)))
                 (PyStr ''INV-1'') = Some approved_state)"
    by (rule approve_with_cost_center [where k = "PyStr ''INV-1''" and st = sample_state])
       (simp_all add: sample_find sample_role sample_flags sample_resolver sample_intent st,
        simp_all add: sample_state_def sample_parsed_def sample_invoice_def is_space_def
          sample_env_def always_commit_def)
  then show ?thesis
    by (simp add: sample_db_def update_spreadsheet_row_def approved_state_def sample_state_def
        truthy_opt_def cell_opt_def insert_or_replace_def load_state_def)
qed

subsection \<open>A payment message after the payment is completed\<close>

text \<open>
  Claim C3, evaluated on the code. The record has \<open>payment_status\<close> completed and a
  transaction id; the message looks like a payment and its intent is payment. The
  handler changes nothing and verifies nothing, and it sends no reply either: the reply
  ``already completed'' sits inside the branch for \<open>payment_status = pending\<close>, which
  this record does not enter.
\<close>

theorem duplicate_payment_gets_no_reply:
  "handle_thread_message
     (sample_env (sample_parsed ''payment'' None) always_commit receipt_ok tx_one_ether)
     (sample_message ''TX: ABC123456789'') (sample_db paid_state)
   = \<lparr>out_db = sample_db paid_state, out_events = [], out_error = None\<rparr>
   \<and> payment_status paid_state = ''completed''
   \<and> transaction_id paid_state = Some ''ABC123456789''
   \<and> looks_like_payment ''payment'' ''TX: ABC123456789''"
proof -
  let ?e = "sample_env (sample_parsed ''payment'' None) always_commit receipt_ok tx_one_ether"
  have h: "handle_thread_message ?e (sample_message ''TX: ABC123456789'') (sample_db paid_state)
      = handle_intent ?e (sample_message ''TX: ABC123456789'') (PyStr ''INV-1'') paid_state
          (sample_db paid_state)"
    by (rule handle_thread_message_reached) (simp_all add: sample_find sample_role sample_flags)
  have p: "payment_status paid_state = ''completed''"
      "transaction_id paid_state = Some ''ABC123456789''"
      "approval_status paid_state = ''approved''"
    by (simp_all add: paid_state_def approved_state_def sample_state_def)
  have "handle_intent ?e (sample_message ''TX: ABC123456789'') (PyStr ''INV-1'') paid_state
          (sample_db paid_state)
      = \<lparr>out_db = sample_db paid_state, out_events = [], out_error = None\<rparr>"
    by (simp add: handle_intent_def Let_def sample_resolver sample_intent p handle_payment_def)
  with h p show ?thesis by (simp add: looks_like_payment_def)
qed

subsection \<open>A write against a locked database\<close>

text \<open>
  Claim C4, evaluated on the code. The database is locked at the first attempt and would
  commit at the second. \<^verbatim>\<open>save_state\<close> reaches \<^verbatim>\<open>time.sleep(delay)\<close>, and \<^verbatim>\<open>time\<close> is
  not a name of the module: the call ends with \<^verbatim>\<open>NameError\<close> after one attempt, without
  a pause and without a second attempt.
\<close>

theorem save_state_locked_once:
  "save_state locked_once (PyStr ''INV-1'') approved_state (sample_db sample_state)
   = \<lparr>sv_result = Inl (NameError ''time''), sv_attempts = 1, sv_slept = []\<rparr>
   \<and> locked_once 1 = Committed"
  by (simp add: save_state_def numeral_eq_Suc locked_once_def module_names_def lower_def
      lower_char_def)

subsection \<open>The time that remains\<close>

lemma str_nat_small: "str_nat 0 = ''0''" "str_nat 30 = ''30''"
  by (simp_all add: str_nat.simps)

lemma hours_minutes_split:
  fixes r :: int
  assumes "0 < r"
  shows "nat ((r mod hour_us) div minute_us) < 60"
    and "int (nat (r div hour_us)) * hour_us + int (nat ((r mod hour_us) div minute_us)) * minute_us \<le> r"
    and "r < int (nat (r div hour_us)) * hour_us + (int (nat ((r mod hour_us) div minute_us)) + 1) * minute_us"
proof -
  define q where "q = r div hour_us"
  define m where "m = r mod hour_us"
  define k where "k = m div minute_us"
  define l where "l = m mod minute_us"
  have r: "r = q * hour_us + m" by (simp add: q_def m_def)
  have m: "m = k * minute_us + l" by (simp add: k_def l_def)
  have mb: "0 \<le> m" "m < hour_us" by (simp_all add: m_def hour_us_def)
  have lb: "0 \<le> l" "l < minute_us" by (simp_all add: l_def minute_us_def)
  have q0: "0 \<le> q" using assms by (simp add: q_def hour_us_def pos_imp_zdiv_nonneg_iff)
  have k0: "0 \<le> k" using mb by (simp add: k_def minute_us_def pos_imp_zdiv_nonneg_iff)
  have k60: "k < 60" using mb lb m unfolding hour_us_def minute_us_def by linarith
  show "nat ((r mod hour_us) div minute_us) < 60"
    using k0 k60 by (simp add: k_def m_def)
  have "q * hour_us + k * minute_us \<le> r" using r m lb by linarith
  then show "int (nat (r div hour_us)) * hour_us
      + int (nat ((r mod hour_us) div minute_us)) * minute_us \<le> r"
    using q0 k0 by (simp add: q_def k_def m_def)
  have "r < q * hour_us + (k + 1) * minute_us" using r m lb by (simp add: algebra_simps)
  then show "r < int (nat (r div hour_us)) * hour_us
      + (int (nat ((r mod hour_us) div minute_us)) + 1) * minute_us"
    using q0 k0 by (simp add: q_def k_def m_def)
qed

text \<open>
  Claim C8. The record has a timestamp that parses to a \<^verbatim>\<open>datetime\<close> without offset, of
  reading \<open>T\<close> (what \<^verbatim>\<open>datetime.now().isoformat()\<close>, the timestamp of every caller, gives).
  The SLA hours are those of the record's \<open>approval_sla_hours\<close>, or the configured ones
  when the record has none or has zero. The deadline is \<open>T\<close> plus the SLA hours and the
  remaining time is the deadline minus the clock, or zero when that is negative. When
  nothing remains the text is \<^verbatim>\<open>Expired\<close>; otherwise it is \<^verbatim>\<open>{h}h {m}m\<close> where \<open>m < 60\<close>
  and \<open>h\<close> hours \<open>m\<close> minutes is the remaining time rounded down to the minute. With 24
  SLA hours the text is \<^verbatim>\<open>Expired\<close> at \<open>T\<close> + 25h and \<^verbatim>\<open>0h 30m\<close> at \<open>T\<close> + 23h30m.
\<close>

theorem time_remaining_rendering:
  assumes "invoice_data st ''Timestamp'' = Some (PyStr ts)"
    and "fromiso ts = Some \<lparr>dt_us = T, dt_aware = False\<rparr>"
    and "sla_hours = (case approval_sla_hours st of
                        None \<Rightarrow> cfg
                      | Some h \<Rightarrow> if h = 0 then cfg else h)"
  shows "(\<exists>txt remaining.
            compute_time_remaining cfg fromiso clock st = Inr (txt, remaining)
          \<and> remaining = max 0 (T + sla_hours * hour_us - clock)
          \<and> (remaining = 0 \<longrightarrow> txt = ''Expired'')
          \<and> (0 < remaining \<longrightarrow>
               (\<exists>h m. txt = str_nat h @ ''h '' @ str_nat m @ ''m'' \<and> m < 60
                  \<and> int h * hour_us + int m * minute_us \<le> remaining
                  \<and> remaining < int h * hour_us + (int m + 1) * minute_us)))
       \<and> (sla_hours = 24 \<longrightarrow>
            compute_time_remaining cfg fromiso (T + 25 * hour_us) st = Inr (''Expired'', 0)
          \<and> compute_time_remaining cfg fromiso (T + 23 * hour_us + 30 * minute_us) st
              = Inr (''0h 30m'', 30 * minute_us))"
proof (intro conjI impI)
  have sla: "sla_hours_of cfg st = sla_hours"
    using assms(3) by (simp add: sla_hours_of_def split: option.splits)
  let ?r = "max 0 (T + sla_hours * hour_us - clock)"
  let ?txt = "if ?r > 0 then str_nat (nat (?r div hour_us)) @ ''h '' @
                 str_nat (nat ((?r mod hour_us) div minute_us)) @ ''m'' else ''Expired''"
  have eq: "compute_time_remaining cfg fromiso c st =
      Inr (if max 0 (T + sla_hours * hour_us - c) > 0
           then str_nat (nat (max 0 (T + sla_hours * hour_us - c) div hour_us)) @ ''h '' @
                str_nat (nat ((max 0 (T + sla_hours * hour_us - c) mod hour_us) div minute_us))
                @ ''m''
           else ''Expired'', max 0 (T + sla_hours * hour_us - c))" for c
    using assms(1,2) by (simp add: compute_time_remaining_def Let_def sla)
  have pos: "0 < ?r \<longrightarrow> (\<exists>h m. ?txt = str_nat h @ ''h '' @ str_nat m @ ''m'' \<and> m < 60
                  \<and> int h * hour_us + int m * minute_us \<le> ?r
                  \<and> ?r < int h * hour_us + (int m + 1) * minute_us)"
  proof
    assume p: "0 < ?r"
    show "\<exists>h m. ?txt = str_nat h @ ''h '' @ str_nat m @ ''m'' \<and> m < 60
                  \<and> int h * hour_us + int m * minute_us \<le> ?r
                  \<and> ?r < int h * hour_us + (int m + 1) * minute_us"
      using p hours_minutes_split [OF p]
      by (intro exI [of _ "nat (?r div hour_us)"]
                exI [of _ "nat ((?r mod hour_us) div minute_us)"]) simp
  qed
  have zero: "?r = 0 \<longrightarrow> ?txt = ''Expired''" by simp
  show "\<exists>txt remaining.
            compute_time_remaining cfg fromiso clock st = Inr (txt, remaining)
          \<and> remaining = max 0 (T + sla_hours * hour_us - clock)
          \<and> (remaining = 0 \<longrightarrow> txt = ''Expired'')
          \<and> (0 < remaining \<longrightarrow>
               (\<exists>h m. txt = str_nat h @ ''h '' @ str_nat m @ ''m'' \<and> m < 60
                  \<and> int h * hour_us + int m * minute_us \<le> remaining
                  \<and> remaining < int h * hour_us + (int m + 1) * minute_us))"
    using eq [of clock] pos zero by blast
  {
    assume s: "sla_hours = 24"
    show "compute_time_remaining cfg fromiso (T + 25 * hour_us) st = Inr (''Expired'', 0)"
      unfolding eq s by (simp add: hour_us_def)
    show "compute_time_remaining cfg fromiso (T + 23 * hour_us + 30 * minute_us) st
              = Inr (''0h 30m'', 30 * minute_us)"
      unfolding eq s by (simp add: hour_us_def minute_us_def str_nat_small)
  }
qed

theorem time_remaining_rendering_witness:
  "compute_time_remaining 48 (\<lambda>s. Some \<lparr>dt_us = 1000, dt_aware = False\<rparr>)
       (1000 + 25 * hour_us) sample_state
     = Inr (''Expired'', 0)
   \<and> compute_time_remaining 48 (\<lambda>s. Some \<lparr>dt_us = 1000, dt_aware = False\<rparr>)
       (1000 + 23 * hour_us + 30 * minute_us) sample_state
     = Inr (''0h 30m'', 1800000000)"
proof -
  have a: "invoice_data sample_state ''Timestamp'' = Some (PyStr ''2025-08-05T10:00:00'')"
    by (simp add: sample_state_def sample_invoice_def)
  have b: "(\<lambda>s::string. Some \<lparr>dt_us = 1000::int, dt_aware = False\<rparr>) ''2025-08-05T10:00:00''
      = Some \<lparr>dt_us = 1000, dt_aware = False\<rparr>" by simp
  have c: "(24::int) = (case approval_sla_hours sample_state of
                        None \<Rightarrow> 48
                      | Some h \<Rightarrow> if h = 0 then 48 else h)"
    by (simp add: sample_state_def)
  from time_remaining_rendering [OF a b c, of 0]
  show ?thesis by (simp add: minute_us_def)
qed

subsection \<open>The reference of a payment message\<close>




























subsection \<open>The creation of a record\<close>

lemma save_loop_result:
  "sv_result (save_loop sq k st d a n delay slept) = Inr d'
   \<Longrightarrow> d' = insert_or_replace d k st \<or> d' = d"
  by (induction n arbitrary: a delay slept) (auto split: sqlite_result.splits if_splits)

lemma save_state_result:
  "sv_result (save_state sq k st d) = Inr d' \<Longrightarrow> d' = insert_or_replace d k st \<or> d' = d"
  unfolding save_state_def Let_def by (rule save_loop_result)

lemma thread_map_loop_keeps:
  "thread_map_loop sq t k d a n = Inr d'
   \<Longrightarrow> invoice_states d' = invoice_states d \<and> null_rows d' = null_rows d"
  by (induction n arbitrary: a) (auto split: sqlite_result.splits if_splits)

lemma stored_insert: "stored (insert_or_replace d num st) num st"
  by (cases num) (simp_all add: stored_def insert_or_replace_def)

lemma stored_cong:
  "invoice_states d' = invoice_states d \<Longrightarrow> null_rows d' = null_rows d
   \<Longrightarrow> stored d' num r = stored d num r"
  by (cases num) (simp_all add: stored_def)

lemma str_nat_nonempty: "str_nat n \<noteq> []"
  by (subst str_nat.simps) simp

lemma embed_keys_required: "set embed_keys = set required_fields"
  by (auto simp add: embed_keys_def required_fields_def)

lemma no_missing:
  "(\<forall>f\<in>set required_fields. m f \<noteq> None) \<Longrightarrow> filter (\<lambda>key. m key = None) required_fields = []"
  "(\<forall>f\<in>set required_fields. m f \<noteq> None) \<Longrightarrow> filter (\<lambda>key. m key = None) embed_keys = []"
  by (simp_all add: filter_empty_conv embed_keys_required)

lemma sla_message_keeps:
  "post_or_update_sla_message w st = Inr (Some st')
   \<Longrightarrow> invoice_data st' = invoice_data st \<and> approval_status st' = approval_status st
       \<and> payment_status st' = payment_status st \<and> reminder_count st' = reminder_count st
       \<and> discord_thread_id st' = discord_thread_id st"
  by (auto simp add: post_or_update_sla_message_def
      split: if_splits sum.splits option.splits prod.splits)

lemma compute_time_remaining_naive:
  "invoice_data st ''Timestamp'' = Some (PyStr ts)
   \<Longrightarrow> fi ts = Some \<lparr>dt_us = T, dt_aware = False\<rparr>
   \<Longrightarrow> \<exists>r. compute_time_remaining cfg fi clock st = Inr r"
  by (simp add: compute_time_remaining_def Let_def)

lemma sla_message_returns:
  assumes "get_channel w (fmt_opt (discord_thread_id st)) = Inr cached"
    and "cached \<longrightarrow> (\<exists>ts T. invoice_data st ''Timestamp'' = Some (PyStr ts)
            \<and> fromisoformat (handler_env w) ts = Some \<lparr>dt_us = T, dt_aware = False\<rparr>)"
    and "invoice_data st ''Invoice Number'' = Some num"
  shows "\<exists>upd. post_or_update_sla_message w st = Inr upd"
proof (cases cached)
  case False
  with assms(1) show ?thesis by (simp add: post_or_update_sla_message_def)
next
  case True
  with assms(2) obtain ts T where "invoice_data st ''Timestamp'' = Some (PyStr ts)"
    "fromisoformat (handler_env w) ts = Some \<lparr>dt_us = T, dt_aware = False\<rparr>" by blast
  from compute_time_remaining_naive [where fi = "fromisoformat (handler_env w)", OF this]
  obtain r
    where "compute_time_remaining (config_approval_sla_hours (handler_env w))
             (fromisoformat (handler_env w)) (now (handler_env w)) st = Inr r" by blast
  with assms(1,3) True show ?thesis
    by (cases r) (auto simp add: post_or_update_sla_message_def split: option.splits)
qed


lemma process_invoice_node_passes:
  "(\<forall>f\<in>set required_fields. invoice_data state f \<noteq> None)
   \<Longrightarrow> process_invoice_node state =
         Inr (state\<lparr>approval_status := ''pending'', payment_status := ''pending'',
                    reminder_count := 0, last_reminder := None\<rparr>)"
  by (simp add: process_invoice_node_def no_missing)

lemma process_invoice_node_raises:
  "(\<exists>f\<in>set required_fields. invoice_data state f = None)
   \<Longrightarrow> process_invoice_node state =
         Inl (ValueError_missing (filter (\<lambda>f. invoice_data state f = None) required_fields))"
  by (simp add: process_invoice_node_def filter_empty_iff_all)

lemma post_to_discord_node_saved:
  assumes "filter (\<lambda>key. invoice_data s key = None) embed_keys = []"
    and "invoice_data s ''Invoice Number'' = Some num"
    and "post_result w = Inr (thread, message)"
    and "post_or_update_sla_message w
           (s\<lparr>discord_thread_id := Some (str_nat thread),
              discord_message_id := Some (case message of Some m \<Rightarrow> str_nat m
                                          | None \<Rightarrow> str_nat thread)\<rparr>) = Inr upd"
    and "new_state = (case upd of Some x \<Rightarrow> x
                      | None \<Rightarrow> s\<lparr>discord_thread_id := Some (str_nat thread),
              discord_message_id := Some (case message of Some m \<Rightarrow> str_nat m
                                          | None \<Rightarrow> str_nat thread)\<rparr>)"
    and "sv_result (save_state (sqlite_attempts (handler_env w)) num new_state d) = Inr d'"
  shows "post_to_discord_node w s d =
          ((case thread_map_loop (thread_map_attempts w) (str_nat thread) num d' 0 5 of
              Inl err \<Rightarrow> d' | Inr d'' \<Rightarrow> d''), Inr new_state)"
proof -
  have "post_to_discord_node w s d =
     (case sv_result (save_state (sqlite_attempts (handler_env w)) num new_state d) of
        Inl err \<Rightarrow> (d, Inl err)
      | Inr d' \<Rightarrow>
         (case thread_map_loop (thread_map_attempts w) (str_nat thread) num d' 0 5 of
            Inl err \<Rightarrow> (d', Inr new_state)
          | Inr d'' \<Rightarrow> (d'', Inr new_state)))"
    unfolding post_to_discord_node_def assms(1) assms(3) assms(2) Let_def assms(5)
    by (simp only: list.case sum.case prod.case assms(4) option.case)
  also have "\<dots> = ((case thread_map_loop (thread_map_attempts w) (str_nat thread) num d' 0 5 of
              Inl err \<Rightarrow> d' | Inr d'' \<Rightarrow> d''), Inr new_state)"
    unfolding assms(6) by (simp only: sum.case split: sum.split) simp
  finally show ?thesis .
qed


lemma post_to_discord_node_creates:
  assumes "\<forall>f\<in>set required_fields. invoice_data s f \<noteq> None"
    and "invoice_data s ''Invoice Number'' = Some num"
    and "post_result w = Inr (thread, message)"
    and "get_channel w (str_nat thread) = Inr cached"
    and "cached \<longrightarrow> (\<exists>ts T. invoice_data s ''Timestamp'' = Some (PyStr ts)
            \<and> fromisoformat (handler_env w) ts = Some \<lparr>dt_us = T, dt_aware = False\<rparr>)"
    and "sqlite_attempts (handler_env w) 0 = Committed"
  shows "\<exists>d1 s2. post_to_discord_node w s d = (d1, Inr s2) \<and> stored d1 num s2
           \<and> invoice_data s2 = invoice_data s \<and> approval_status s2 = approval_status s
           \<and> payment_status s2 = payment_status s \<and> reminder_count s2 = reminder_count s
           \<and> discord_thread_id s2 = Some (str_nat thread)"
proof -
  define posted where "posted = s\<lparr>discord_thread_id := Some (str_nat thread),
      discord_message_id := Some (case message of Some m \<Rightarrow> str_nat m | None \<Rightarrow> str_nat thread)\<rparr>"
  have p: "invoice_data posted = invoice_data s" "approval_status posted = approval_status s"
    "payment_status posted = payment_status s" "reminder_count posted = reminder_count s"
    "discord_thread_id posted = Some (str_nat thread)"
    by (simp_all add: posted_def)
  have g: "get_channel w (fmt_opt (discord_thread_id posted)) = Inr cached"
    using assms(4) by (simp add: p fmt_opt_def)
  have c: "cached \<longrightarrow> (\<exists>ts T. invoice_data posted ''Timestamp'' = Some (PyStr ts)
            \<and> fromisoformat (handler_env w) ts = Some \<lparr>dt_us = T, dt_aware = False\<rparr>)"
    using assms(5) by (simp add: p)
  have i: "invoice_data posted ''Invoice Number'' = Some num" using assms(2) by (simp add: p)
  from sla_message_returns [OF g c i]
  obtain upd where upd: "post_or_update_sla_message w posted = Inr upd" by blast
  define new_state where "new_state = (case upd of Some x \<Rightarrow> x | None \<Rightarrow> posted)"
  have n: "invoice_data new_state = invoice_data s \<and> approval_status new_state = approval_status s
      \<and> payment_status new_state = payment_status s \<and> reminder_count new_state = reminder_count s
      \<and> discord_thread_id new_state = Some (str_nat thread)"
  proof (cases upd)
    case None
    then show ?thesis by (simp add: new_state_def p)
  next
    case (Some x)
    with upd sla_message_keeps [of w posted x] show ?thesis by (simp add: new_state_def p)
  qed
  define d' where "d' = insert_or_replace d num new_state"
  have sv: "sv_result (save_state (sqlite_attempts (handler_env w)) num new_state d) = Inr d'"
    using assms(6) by (simp add: d'_def save_state_first_commit)
  have st: "stored d' num new_state" by (simp add: d'_def stored_insert)
  define d1 where "d1 = (case thread_map_loop (thread_map_attempts w) (str_nat thread) num d' 0 5
      of Inl err \<Rightarrow> d' | Inr d'' \<Rightarrow> d'')"
  have m: "filter (\<lambda>key. invoice_data s key = None) embed_keys = []"
    using assms(1) by (rule no_missing)
  have r: "post_to_discord_node w s d = (d1, Inr new_state)"
    unfolding d1_def
    by (rule post_to_discord_node_saved [OF m assms(2,3) upd [unfolded posted_def]
          new_state_def [unfolded posted_def] sv])
  have "stored d1 num new_state"
  proof (cases "thread_map_loop (thread_map_attempts w) (str_nat thread) num d' 0 5")
    case (Inl err)
    with st show ?thesis by (simp add: d1_def)
  next
    case (Inr d'')
    from thread_map_loop_keeps [OF Inr]
    have "stored d'' num new_state = stored d' num new_state"
      by (intro stored_cong) simp_all
    with st have "stored d'' num new_state" by simp
    with Inr show ?thesis by (simp add: d1_def)
  qed
  with r n show ?thesis by blast
qed

lemma update_spreadsheet_node_keeps:
  assumes "invoice_data s ''Invoice Number'' = Some num" and "stored d num s"
    and "update_spreadsheet_node w s d = (d2, res)"
  shows "\<exists>r. stored d2 num r \<and> invoice_data r = invoice_data s
           \<and> approval_status r = approval_status s \<and> payment_status r = payment_status s
           \<and> reminder_count r = reminder_count s \<and> discord_thread_id r = discord_thread_id s"
proof -
  let ?new = "s\<lparr>spreadsheet_row := Some (int (sheet_rows w))\<rparr>"
  from assms(1,3) have "d2 = d \<or> (\<exists>d'. sv_result (save_state (spreadsheet_attempts w) num ?new d)
      = Inr d' \<and> d2 = d')"
    by (auto simp add: update_spreadsheet_node_def Let_def
        split: list.splits sum.splits option.splits)
  then consider "d2 = d" | "d2 = insert_or_replace d num ?new"
    using save_state_result by blast
  then show ?thesis
  proof cases
    case 1
    with assms(2) show ?thesis by blast
  next
    case 2
    have "stored d2 num ?new" unfolding 2 by (rule stored_insert)
    then show ?thesis by (intro exI [of _ ?new]) simp
  qed
qed

lemma process_invoice_creates:
  assumes "\<forall>f\<in>set required_fields. payload f \<noteq> None"
    and "payload ''Invoice Number'' = Some num"
    and "post_result w = Inr (thread, message)"
    and "get_channel w (str_nat thread) = Inr cached"
    and "cached \<longrightarrow> (\<exists>ts T. payload ''Timestamp'' = Some (PyStr ts)
            \<and> fromisoformat (handler_env w) ts = Some \<lparr>dt_us = T, dt_aware = False\<rparr>)"
    and "sqlite_attempts (handler_env w) 0 = Committed"
  shows "\<exists>record. stored (cr_db (process_invoice w payload d)) num record
            \<and> invoice_data record = payload
            \<and> approval_status record = ''pending''
            \<and> payment_status record = ''pending''
            \<and> reminder_count record = 0
            \<and> discord_thread_id record = Some (str_nat thread)"
proof -
  define initial where "initial =
            \<lparr>invoice_data = payload,
             discord_thread_id = None,
             discord_message_id = None,
             approval_status = ''pending'',
             cost_center = None,
             approver = None,
             rejection_reason = None,
             payment_status = ''pending'',
             transaction_id = None,
             paid_amount_eth = None,
             reminder_count = 0,
             last_reminder = None,
             spreadsheet_row = None,
             sla_message_id = None,
             approval_sla_hours = Some (config_approval_sla_hours (handler_env w))\<rparr>"
  define validated where "validated = initial\<lparr>approval_status := ''pending'',
      payment_status := ''pending'', reminder_count := 0, last_reminder := None\<rparr>"
  have v: "process_invoice_node initial = Inr validated"
    unfolding validated_def using assms(1)
    by (intro process_invoice_node_passes) (simp add: initial_def)
  have vp: "invoice_data validated = payload" "approval_status validated = ''pending''"
    "payment_status validated = ''pending''" "reminder_count validated = 0"
    by (simp_all add: validated_def initial_def)
  have a1: "\<forall>f\<in>set required_fields. invoice_data validated f \<noteq> None"
    using assms(1) by (simp add: vp)
  have a2: "invoice_data validated ''Invoice Number'' = Some num"
    using assms(2) by (simp add: vp)
  have a5: "cached \<longrightarrow> (\<exists>ts T. invoice_data validated ''Timestamp'' = Some (PyStr ts)
            \<and> fromisoformat (handler_env w) ts = Some \<lparr>dt_us = T, dt_aware = False\<rparr>)"
    using assms(5) by (simp add: vp)
  from post_to_discord_node_creates [OF a1 a2 assms(3,4) a5 assms(6), of d]
  obtain d1 s2 where
    p: "post_to_discord_node w validated d = (d1, Inr s2)" and s2: "stored d1 num s2"
    "invoice_data s2 = payload" "approval_status s2 = ''pending''"
    "payment_status s2 = ''pending''" "reminder_count s2 = 0"
    "discord_thread_id s2 = Some (str_nat thread)"
    unfolding vp by blast
  obtain d2 res where u: "update_spreadsheet_node w s2 d1 = (d2, res)"
    by (cases "update_spreadsheet_node w s2 d1") auto
  have "invoice_data s2 ''Invoice Number'' = Some num" using assms(2) s2(2) by simp
  from update_spreadsheet_node_keeps [OF this s2(1) u] s2 obtain r where
    r: "stored d2 num r" "invoice_data r = payload" "approval_status r = ''pending''"
    "payment_status r = ''pending''" "reminder_count r = 0"
    "discord_thread_id r = Some (str_nat thread)" by auto
  have "cr_db (process_invoice w payload d) = d2"
    unfolding process_invoice_def Let_def initial_def [symmetric]
    using assms(2) v p u by (simp split: sum.splits)
  with r show ?thesis by blast
qed

lemma process_invoice_rejects:
  assumes "\<exists>f\<in>set required_fields. payload f = None"
  shows "process_invoice w payload d =
          \<lparr>cr_db = d,
           cr_result = Inl (if payload ''Invoice Number'' = None then KeyError ''Invoice Number''
                            else ValueError_missing
                                   (filter (\<lambda>f. payload f = None) required_fields))\<rparr>"
proof (cases "payload ''Invoice Number''")
  case None
  then show ?thesis by (simp add: process_invoice_def)
next
  case (Some num)
  then show ?thesis
    using assms
    by (simp add: process_invoice_def Let_def process_invoice_node_raises)
qed

lemma str_nat_samples:
  "str_nat 1001 = ''1001''" "str_nat 2002 = ''2002''" "str_nat 3003 = ''3003''"
  by (simp_all add: str_nat.simps)

lemma sample_workflow_oracles:
  "post_result sample_workflow = Inr (1001, Some 2002)"
  "get_channel sample_workflow t = Inr True"
  "sqlite_attempts (handler_env sample_workflow) 0 = Committed"
  "fromisoformat (handler_env sample_workflow) ts = Some \<lparr>dt_us = 0, dt_aware = False\<rparr>"
  by (simp_all add: sample_workflow_def sample_env_def always_commit_def)

lemma thread_map_first_commit:
  "sq 0 = Committed \<Longrightarrow>
   thread_map_loop sq t k d 0 5 = Inr (d\<lparr>thread_map := (thread_map d)(t \<mapsto> k)\<rparr>)"
  by (simp add: numeral_eq_Suc)

lemma append_first: "ap (Suc 0) \<Longrightarrow> append_loop ap (Suc 0) 3 = Inr ()"
  by (simp add: numeral_eq_Suc)

lemma sample_creation:
  "process_invoice sample_workflow sample_invoice empty_db =
     \<lparr>cr_db = \<lparr>invoice_states = [''INV-1'' \<mapsto> created_state], null_rows = [],
                thread_map = [''1001'' \<mapsto> PyStr ''INV-1'']\<rparr>,
      cr_result = Inr ''Invoice INV-1 submitted for approval''\<rparr>"
  by (simp add: process_invoice_def process_invoice_node_def required_fields_def
      sample_invoice_def post_to_discord_node_def embed_keys_def sample_workflow_def
      post_or_update_sla_message_def truthy_opt_def str_nat_samples fmt_opt_def
      compute_time_remaining_def sample_env_def sla_hours_of_def Let_def
      save_state_first_commit thread_map_first_commit append_first
      always_commit_def insert_or_replace_def empty_db_def
      update_spreadsheet_node_def finalize_invoice_node_def fmt_pyval_def created_state_def
      sample_state_def)

text \<open>
  Claim C9, amended. The validation is \<^verbatim>\<open>process_invoice_node\<close>: it raises exactly when
  some required key is absent from the payload, and with every required key bound,
  whatever the values (null and the empty string included), it returns the state with
  \<open>approval_status\<close> and \<open>payment_status\<close> pending and \<open>reminder_count\<close> 0. A payload
  that lacks a required key creates no record: \<^verbatim>\<open>process_invoice\<close> leaves the store as it
  was and raises, \<^verbatim>\<open>KeyError\<close> before the workflow when the key is the invoice number,
  the validation error with the missing keys otherwise. A payload with every required key
  has its record written when the notice is posted, the countdown message can be computed
  (the client has not the thread, or the timestamp parses to a \<^verbatim>\<open>datetime\<close> without
  offset) and the database commits the first write: at the end of \<^verbatim>\<open>process_invoice\<close>
  the store holds, under the invoice number of the payload, a state with this payload,
  both statuses pending, \<open>reminder_count\<close> 0 and the thread of the notice.
\<close>

theorem record_creation_validation:
  "(isl (process_invoice_node state) \<longleftrightarrow> (\<exists>f\<in>set required_fields. invoice_data state f = None))
   \<and> ((\<forall>f\<in>set required_fields. invoice_data state f \<noteq> None) \<longrightarrow>
        process_invoice_node state =
          Inr (state\<lparr>approval_status := ''pending'', payment_status := ''pending'',
                     reminder_count := 0, last_reminder := None\<rparr>))
   \<and> ((\<exists>f\<in>set required_fields. payload f = None) \<longrightarrow>
        process_invoice w payload d =
          \<lparr>cr_db = d,
           cr_result = Inl (if payload ''Invoice Number'' = None then KeyError ''Invoice Number''
                            else ValueError_missing
                                   (filter (\<lambda>f. payload f = None) required_fields))\<rparr>)
   \<and> ((\<forall>f\<in>set required_fields. payload f \<noteq> None)
        \<and> payload ''Invoice Number'' = Some num
        \<and> post_result w = Inr (thread, message)
        \<and> get_channel w (str_nat thread) = Inr cached
        \<and> (cached \<longrightarrow> (\<exists>ts T. payload ''Timestamp'' = Some (PyStr ts)
                \<and> fromisoformat (handler_env w) ts = Some \<lparr>dt_us = T, dt_aware = False\<rparr>))
        \<and> sqlite_attempts (handler_env w) 0 = Committed
      \<longrightarrow> (\<exists>record. stored (cr_db (process_invoice w payload d)) num record
            \<and> invoice_data record = payload
            \<and> approval_status record = ''pending''
            \<and> payment_status record = ''pending''
            \<and> reminder_count record = 0
            \<and> discord_thread_id record = Some (str_nat thread)))"
proof (intro conjI impI, goal_cases)
  case 1
  show ?case
  proof (cases "\<exists>f\<in>set required_fields. invoice_data state f = None")
    case True
    with process_invoice_node_raises [OF True] show ?thesis by simp
  next
    case False
    then have "\<forall>f\<in>set required_fields. invoice_data state f \<noteq> None" by simp
    from process_invoice_node_passes [OF this] False show ?thesis by simp
  qed
next
  case 2
  then show ?case by (rule process_invoice_node_passes)
next
  case 3
  then show ?case by (rule process_invoice_rejects)
next
  case 4
  then show ?case by (elim conjE) (rule process_invoice_creates)
qed

theorem record_creation_validation_witness:
  "process_invoice sample_workflow (sample_invoice(''Currency'' := None)) empty_db =
     \<lparr>cr_db = empty_db, cr_result = Inl (ValueError_missing [''Currency''])\<rparr>
   \<and> (\<exists>record. stored (cr_db (process_invoice sample_workflow sample_invoice empty_db))
                  (PyStr ''INV-1'') record
         \<and> invoice_data record = sample_invoice
         \<and> approval_status record = ''pending''
         \<and> payment_status record = ''pending''
         \<and> reminder_count record = 0
         \<and> discord_thread_id record = Some ''1001'')
   \<and> stored (cr_db (process_invoice sample_workflow sample_invoice empty_db))
        (PyStr ''INV-1'') created_state"
proof -
  let ?bad = "sample_invoice(''Currency'' := None)"
  note t = record_creation_validation [where payload = ?bad and w = sample_workflow
      and d = empty_db]
  have ex: "\<exists>f\<in>set required_fields. ?bad f = None"
    by (simp add: required_fields_def)
  have flt: "filter (\<lambda>f. ?bad f = None) required_fields = [''Currency'']"
    by (simp add: required_fields_def sample_invoice_def)
  have num: "?bad ''Invoice Number'' \<noteq> None" by (simp add: sample_invoice_def)
  from t ex have "process_invoice sample_workflow ?bad empty_db =
          \<lparr>cr_db = empty_db,
           cr_result = Inl (if ?bad ''Invoice Number'' = None then KeyError ''Invoice Number''
                            else ValueError_missing
                                   (filter (\<lambda>f. ?bad f = None) required_fields))\<rparr>"
    by blast
  then have bad: "process_invoice sample_workflow ?bad empty_db =
     \<lparr>cr_db = empty_db, cr_result = Inl (ValueError_missing [''Currency''])\<rparr>"
    unfolding flt using num by simp
  note g = record_creation_validation [where payload = sample_invoice and w = sample_workflow
      and d = empty_db and num = "PyStr ''INV-1''" and thread = 1001 and message = "Some 2002"
      and cached = True]
  have all: "\<forall>f\<in>set required_fields. sample_invoice f \<noteq> None"
    by (simp add: required_fields_def sample_invoice_def)
  have hyp: "sample_invoice ''Invoice Number'' = Some (PyStr ''INV-1'')"
    "True \<longrightarrow> (\<exists>ts T. sample_invoice ''Timestamp'' = Some (PyStr ts)
        \<and> fromisoformat (handler_env sample_workflow) ts = Some \<lparr>dt_us = T, dt_aware = False\<rparr>)"
    by (simp_all add: sample_invoice_def sample_workflow_oracles)
  from g all hyp sample_workflow_oracles(1,3) sample_workflow_oracles(2) [of "str_nat 1001"]
  have good: "\<exists>record. stored (cr_db (process_invoice sample_workflow sample_invoice empty_db))
                  (PyStr ''INV-1'') record
         \<and> invoice_data record = sample_invoice
         \<and> approval_status record = ''pending''
         \<and> payment_status record = ''pending''
         \<and> reminder_count record = 0
         \<and> discord_thread_id record = Some (str_nat 1001)"
    by blast
  have "stored (cr_db (process_invoice sample_workflow sample_invoice empty_db))
        (PyStr ''INV-1'') created_state"
    by (simp add: sample_creation stored_def)
  with bad good show ?thesis by (simp add: str_nat_samples)
qed

text \<open>
  The claim as first stated, that every payload with all its required keys has its record
  created, fails for a null timestamp. The payload has every required key, so the
  validation passes; the client has the thread, so the countdown message is computed
  before the first write, and \<^verbatim>\<open>datetime.fromisoformat(None)\<close> raises: \<^verbatim>\<open>process_invoice\<close>
  ends with \<^verbatim>\<open>TypeError\<close> and the store is as it was.
\<close>

theorem null_timestamp_creates_no_record:
  "filter (\<lambda>f. (sample_invoice(''Timestamp'' \<mapsto> PyNone)) f = None) required_fields = []
   \<and> \<not> isl (process_invoice_node
               (sample_state\<lparr>invoice_data := sample_invoice(''Timestamp'' \<mapsto> PyNone)\<rparr>))
   \<and> process_invoice sample_workflow (sample_invoice(''Timestamp'' \<mapsto> PyNone)) empty_db =
       \<lparr>cr_db = empty_db, cr_result = Inl TypeError\<rparr>"
  by (simp add: process_invoice_def process_invoice_node_def required_fields_def
      sample_invoice_def post_to_discord_node_def embed_keys_def sample_workflow_def
      post_or_update_sla_message_def truthy_opt_def str_nat_samples fmt_opt_def
      compute_time_remaining_def sample_env_def Let_def sample_state_def)

end
